theory Spec2Isabelle
  imports Complex_Main
begin

section \<open>Errors\<close>

text \<open>
  The exceptions the Python sources can raise on the paths modelled here. A function that
  can raise returns \<open>error + 'a\<close>, with \<open>Inl\<close> for the exception.
\<close>

datatype error = IndexError | ValueError | ZeroDivisionError | RuntimeError
  | AttributeError | UnboundLocalError | OverflowError

section \<open>Datasets and the supervision masks\<close>

text \<open>
  The fields of the dataset classes that \<open>pad_tokens\<close> reads and writes. Token tensors are
  \<open>int64\<close> (the padding sentinel is \<open>-1\<close>), so tokens are \<open>int\<close>; masks are float tensors
  holding \<open>0.0\<close> and \<open>1.0\<close>, so masks are \<open>real list\<close>. \<open>max_seq_len\<close> is a Python
  integer, an \<open>int\<close>; \<open>prefix_length\<close> is the size given to \<open>torch.ones\<close>, a \<open>nat\<close>. The
  question-answering dataset has the raw answers and questions besides.
\<close>

record dataset =
  captions_tokens :: "int list list"
  max_seq_len :: int
  prefix_length :: nat

record vqa_dataset = dataset +
  answers :: "string list"
  questions :: "string list"

text \<open>
  The slice \<open>xs[:k]\<close>: the first \<open>k\<close> elements, or for a negative \<open>k\<close> all but the last
  \<open>-k\<close>.
\<close>

definition py_slice_to :: "int \<Rightarrow> 'a list \<Rightarrow> 'a list" where
  "py_slice_to k xs =
     (if k \<ge> 0 then take (nat k) xs else take (nat (int (length xs) + k)) xs)"

text \<open>
  Lines 103 to 109 of \<open>train_MTL_IC_VQA.py\<close> (36 to 42 of \<open>train_IC.py\<close>):
  \<^verbatim>\<open>
  padding = self.max_seq_len - tokens.shape[0]
  if padding > 0:
      tokens = torch.cat((tokens, torch.zeros(padding, dtype=torch.int64) - 1))
  elif padding < 0:
      tokens = tokens[:self.max_seq_len]
  \<close>
\<close>

definition pad_or_truncate :: "int \<Rightarrow> int list \<Rightarrow> int list" where
  "pad_or_truncate msl tokens =
     (let padding = msl - int (length tokens)
      in if padding > 0 then tokens @ replicate (nat padding) (- 1)
         else if padding < 0 then py_slice_to msl tokens
         else tokens)"


text \<open>\<^verbatim>\<open>tokens[~mask] = 0\<close>: the sentinel positions are overwritten, in place.\<close>

definition zero_fill :: "int list \<Rightarrow> int list" where
  "zero_fill tokens = map (\<lambda>t. if t \<ge> 0 then t else 0) tokens"

text \<open>
  \<open>ClipCocoDataset_VQA.pad_tokens\<close> (\<open>train_MTL_IC_VQA.py\<close>, lines 86 to 122). The tokenizer
  is a parameter: \<open>encode\<close>. Python's \<open>n * [v]\<close> is the empty list for \<open>n \<le> 0\<close>, which
  \<open>replicate (nat n) v\<close> is too. The tensor stored in \<open>self.captions_tokens[item]\<close> is the
  object that \<open>tokens[~omask] = 0\<close> then changes in place, in each of the three padding
  branches, so the returned dataset holds the zero-filled tokens at \<open>item\<close>. The result is
  the updated dataset and the triple \<open>(tokens, mask, mask4gpt)\<close>.
\<close>

definition ClipCocoDataset_VQA_pad_tokens ::
  "(string \<Rightarrow> int list) \<Rightarrow> vqa_dataset \<Rightarrow> nat
     \<Rightarrow> error + (vqa_dataset \<times> int list \<times> real list \<times> real list)" where
  "ClipCocoDataset_VQA_pad_tokens encode ds item =
     (if item < length (captions_tokens ds) \<and> item < length (answers ds)
         \<and> item < length (questions ds)
      then
        let tokens = captions_tokens ds ! item;
            temp_ans = answers ds ! item;
            temp_q = questions ds ! item;
            q_range = int (length (encode temp_q));
            a_range = int (length (encode temp_ans)) + 1;
            rest_range = max_seq_len ds - q_range - a_range;
            need_pred =
              (if rest_range \<ge> 0
               then replicate (nat q_range) 0 @ replicate (nat a_range) 1
                      @ replicate (nat rest_range) 0
               else replicate (nat (max_seq_len ds)) (0::real));
            need_pred_4gpt =
              (if rest_range \<ge> 0
               then replicate (nat q_range) 1 @ replicate (nat a_range) 1
                      @ replicate (nat rest_range) 0
               else replicate (nat (max_seq_len ds)) (0::real));
            tokens' = zero_fill (pad_or_truncate (max_seq_len ds) tokens);
            mask = replicate (prefix_length ds) 1 @ need_pred;
            mask4gpt = replicate (prefix_length ds) 1 @ need_pred_4gpt
        in Inr (ds\<lparr>captions_tokens := (captions_tokens ds)[item := tokens']\<rparr>,
                tokens', mask, mask4gpt)
      else Inl IndexError)"

text \<open>
  \<open>ClipCocoDataset.pad_tokens\<close> of \<open>trainy_notes_VQA.py\<close> (lines 28 to 59), an earlier copy:
  \<open>a_range\<close> is the number of answer tokens with nothing added, there is one mask, and the
  third result is the tokenized answer.
\<close>

definition notes_ClipCocoDataset_pad_tokens ::
  "(string \<Rightarrow> int list) \<Rightarrow> vqa_dataset \<Rightarrow> nat
     \<Rightarrow> error + (vqa_dataset \<times> int list \<times> real list \<times> int list)" where
  "notes_ClipCocoDataset_pad_tokens encode ds item =
     (if item < length (captions_tokens ds) \<and> item < length (answers ds)
         \<and> item < length (questions ds)
      then
        let tokens = captions_tokens ds ! item;
            temp_ans = answers ds ! item;
            temp_q = questions ds ! item;
            tokenized_answer = encode temp_ans;
            q_range = int (length (encode temp_q));
            a_range = int (length (encode temp_ans));
            rest_range = max_seq_len ds - q_range - a_range;
            need_pred =
              (if rest_range \<ge> 0
               then replicate (nat q_range) 0 @ replicate (nat a_range) 1
                      @ replicate (nat rest_range) 0
               else replicate (nat (max_seq_len ds)) (0::real));
            tokens' = zero_fill (pad_or_truncate (max_seq_len ds) tokens);
            mask = replicate (prefix_length ds) 1 @ need_pred
        in Inr (ds\<lparr>captions_tokens := (captions_tokens ds)[item := tokens']\<rparr>,
                tokens', mask, tokenized_answer)
      else Inl IndexError)"




definition py_int :: "real \<Rightarrow> int" where
  "py_int x = (if x \<ge> 0 then \<lfloor>x\<rfloor> else \<lceil>x\<rceil>)"







section \<open>The multi-task training loop\<close>

text \<open>
  The training loop of \<open>main\<close> in \<open>train_MTL_IC_VQA.py\<close> (lines 527 to 594). The model, the
  two losses and the optimizer are collaborators: a model is a value of any type \<open>'m\<close>,
  \<open>loss_ic\<close> and \<open>loss_vqa\<close> give the scalar loss of a batch under a model (\<open>train_ic\<close>,
  \<open>train_vqa\<close> and \<open>cross_entropy\<close>), and \<open>optimizer_step\<close> gives the model after
  \<open>loss.backward()\<close>, \<open>optimizer.step()\<close> and \<open>scheduler.step()\<close> on the weighted sum of the
  two losses. Losses are real numbers. A batch is the list of its examples, so
  \<open>mask_ic.shape[0]\<close> is its length; a data loader with \<open>shuffle=False\<close> is the list of its
  batches, \<open>len\<close> of it the length of that list, and \<open>iter\<close> of it yields the batches in
  order.
\<close>

record ('m, 'a, 'b) learner =
  loss_ic :: "'m \<Rightarrow> 'a list \<Rightarrow> real"
  loss_vqa :: "'m \<Rightarrow> 'b list \<Rightarrow> real"
  optimizer_step :: "'m \<Rightarrow> 'a list \<Rightarrow> 'b list \<Rightarrow> 'm"

text \<open>
  The variables of \<open>main\<close> that the loop changes. \<open>progress_n\<close> is the counter of the \<open>tqdm\<close>
  bar, which \<open>progress.update()\<close> advances by one.
\<close>

record 'm mtl_state =
  model :: 'm
  train_loss_ic :: real
  train_loss_vqa :: real
  counter_batch_ic :: nat
  counter_batch_vqa :: nat
  progress_n :: nat
  avg_train_loss_ic :: "real list"
  avg_train_loss_vqa :: "real list"

text \<open>Lines 563 to 587: one paired step, on a batch of each task.\<close>

definition paired_step ::
  "('m, 'a, 'b) learner \<Rightarrow> 'a list \<Rightarrow> 'b list \<Rightarrow> 'm mtl_state \<Rightarrow> 'm mtl_state" where
  "paired_step L batch_ic batch_vqa st =
     (let l_ic = loss_ic L (model st) batch_ic;
          l_vqa = loss_vqa L (model st) batch_vqa
      in st\<lparr>model := optimizer_step L (model st) batch_ic batch_vqa,
            train_loss_ic := train_loss_ic st + l_ic,
            train_loss_vqa := train_loss_vqa st + l_vqa,
            counter_batch_ic := counter_batch_ic st + length batch_ic,
            counter_batch_vqa := counter_batch_vqa st + length batch_vqa,
            progress_n := progress_n st + 1\<rparr>)"

text \<open>
  Lines 554 to 587: \<^verbatim>\<open>while True\<close>, leaving at the first \<open>StopIteration\<close>.
  \<open>next(t_ic_dataloader)\<close> is tried first, \<open>next(t_vqa_dataloader)\<close> second; either one
  raising ends the loop before the step. (\<open>model.train()\<close> and \<open>model.zero_grad()\<close>, which
  come before, set the mode and clear the gradients; they change none of the variables
  below.)
\<close>

fun paired_loop ::
  "('m, 'a, 'b) learner \<Rightarrow> 'a list list \<Rightarrow> 'b list list \<Rightarrow> 'm mtl_state \<Rightarrow> 'm mtl_state" where
  "paired_loop L [] t_vqa st = st"
| "paired_loop L (batch_ic # t_ic) [] st = st"
| "paired_loop L (batch_ic # t_ic) (batch_vqa # t_vqa) st =
     paired_loop L t_ic t_vqa (paired_step L batch_ic batch_vqa st)"

text \<open>
  Lines 551 to 594: one epoch. Fresh iterators and a fresh progress bar, the loop, then
  the two averages, both divided by \<open>len(train_dataloader_ic)\<close> as lines 590 and 591 have
  it; dividing by the length of an empty loader raises \<open>ZeroDivisionError\<close>. The running
  sums are set to zero before the first epoch only (lines 534 and 535). The validation
  passes and the checkpoint that follow change none of these variables.
\<close>

definition train_epoch ::
  "('m, 'a, 'b) learner \<Rightarrow> 'a list list \<Rightarrow> 'b list list \<Rightarrow> 'm mtl_state
     \<Rightarrow> error + 'm mtl_state" where
  "train_epoch L train_dataloader_ic train_dataloader_vqa st =
     (let st1 = paired_loop L train_dataloader_ic train_dataloader_vqa (st\<lparr>progress_n := 0\<rparr>)
      in if length train_dataloader_ic = 0 then Inl ZeroDivisionError
         else
           let epoch_avg_train_loss_ic = train_loss_ic st1 / real (length train_dataloader_ic);
               epoch_avg_train_loss_vqa = train_loss_vqa st1 / real (length train_dataloader_ic)
           in Inr (st1\<lparr>avg_train_loss_ic := avg_train_loss_ic st1 @ [epoch_avg_train_loss_ic],
                        avg_train_loss_vqa := avg_train_loss_vqa st1 @ [epoch_avg_train_loss_vqa]\<rparr>))"

text \<open>Lines 527 to 535: the variables before the first epoch.\<close>

definition main_init :: "'m \<Rightarrow> 'm mtl_state" where
  "main_init m = \<lparr>model = m, train_loss_ic = 0, train_loss_vqa = 0, counter_batch_ic = 0,
     counter_batch_vqa = 0, progress_n = 0, avg_train_loss_ic = [], avg_train_loss_vqa = []\<rparr>"

text \<open>Line 550: \<^verbatim>\<open>for epoch in range(epochs)\<close>.\<close>

fun train_epochs ::
  "nat \<Rightarrow> ('m, 'a, 'b) learner \<Rightarrow> 'a list list \<Rightarrow> 'b list list \<Rightarrow> 'm mtl_state
     \<Rightarrow> error + 'm mtl_state" where
  "train_epochs 0 L dl_ic dl_vqa st = Inr st"
| "train_epochs (Suc epochs) L dl_ic dl_vqa st =
     (case train_epoch L dl_ic dl_vqa st of
        Inl e \<Rightarrow> Inl e
      | Inr st' \<Rightarrow> train_epochs epochs L dl_ic dl_vqa st')"

section \<open>Greedy decoding\<close>

text \<open>
  The language model and the float32 operations on its logits are not modelled: they are
  parameters. For one sequence of the batch, \<open>lm_gpt\<close> gives the row of logits at the last
  position (\<open>model.gpt(inputs_embeds=generated).logits[:, -1, :]\<close>), \<open>lm_wte\<close> the embedding
  of a token id, \<open>l_div\<close> the row divided by a Python float, \<open>l_softmax\<close> and \<open>l_log\<close> the row
  after \<open>softmax(-1)\<close> and after \<open>log()\<close>, and \<open>l_topk1\<close> the index that \<open>topk(1, -1)\<close> returns,
  \<open>None\<close> where it raises.
\<close>

record ('e, 'l) lm_ops =
  lm_gpt :: "'e list \<Rightarrow> 'l"
  lm_wte :: "nat \<Rightarrow> 'e"
  l_div :: "'l \<Rightarrow> real \<Rightarrow> 'l"
  l_softmax :: "'l \<Rightarrow> 'l"
  l_log :: "'l \<Rightarrow> 'l"
  l_topk1 :: "'l \<Rightarrow> nat option"

text \<open>
  Lines 455 to 459 of \<open>train_IC.py\<close>, for one sequence:
  \<^verbatim>\<open>
  outputs = model.gpt(inputs_embeds=generated)
  logits = outputs.logits
  logits = logits[:, -1, :] / (temperature if temperature > 0 else 1.0)
  logits = logits.softmax(-1).log()
  scores, next_tokens = logits.topk(1, -1)
  \<close>
\<close>

definition next_token :: "('e, 'l) lm_ops \<Rightarrow> real \<Rightarrow> 'e list \<Rightarrow> nat option" where
  "next_token M temperature row =
     l_topk1 M (l_log M (l_softmax M
       (l_div M (lm_gpt M row) (if temperature > 0 then temperature else 1))))"

text \<open>
  The variables of \<open>generate_topk\<close> that its loops change. A row of \<open>tokens\<close> is the list of
  token ids of one sequence of the batch, a row of \<open>generated\<close> the list of embedding
  vectors fed to the language model for it. \<open>seq_lengths\<close> is a float tensor holding whole
  numbers, read back with \<open>int\<close>.
\<close>

record 'e decode_state =
  tokens :: "nat list list option"
  generated :: "'e list list"
  next_tokens :: "nat list"
  seq_lengths :: "nat list"
  is_stopped :: "bool list"

text \<open>
  Lines 455 to 469: the body of the inner loop. \<open>torch.cat((tokens, next_tokens), dim=1)\<close>
  raises unless \<open>tokens\<close> has one row for each sequence of the batch.
\<close>

definition decode_step ::
  "('e, 'l) lm_ops \<Rightarrow> real \<Rightarrow> nat \<Rightarrow> nat \<Rightarrow> 'e decode_state \<Rightarrow> error + 'e decode_state" where
  "decode_step M temperature stop_token_index eos_token_index st =
     (case those (map (next_token M temperature) (generated st)) of
        None \<Rightarrow> Inl RuntimeError
      | Some nxt \<Rightarrow>
          if (case tokens st of None \<Rightarrow> False | Some ts \<Rightarrow> length ts \<noteq> length nxt)
          then Inl RuntimeError
          else
          Inr (st\<lparr>tokens := Some (case tokens st of
                                     None \<Rightarrow> map (\<lambda>t. [t]) nxt
                                   | Some ts \<Rightarrow> map2 (\<lambda>r t. r @ [t]) ts nxt),
                  generated := map2 (\<lambda>g t. g @ [lm_wte M t]) (generated st) nxt,
                  next_tokens := nxt,
                  seq_lengths := map2 (\<lambda>l s. if s then l else l + 1)
                                   (seq_lengths st) (is_stopped st),
                  is_stopped := map2 (\<lambda>s t. s \<or> t = stop_token_index \<or> t = eos_token_index)
                                  (is_stopped st) nxt\<rparr>))"

text \<open>
  Lines 454 to 471: \<^verbatim>\<open>for i in range(entry_length)\<close>, left early once every sequence is
  stopped.
\<close>

fun decode_loop ::
  "nat \<Rightarrow> ('e, 'l) lm_ops \<Rightarrow> real \<Rightarrow> nat \<Rightarrow> nat
     \<Rightarrow> 'e decode_state \<Rightarrow> error + 'e decode_state" where
  "decode_loop 0 M temperature stop eos st = Inr st"
| "decode_loop (Suc n) M temperature stop eos st =
     (case decode_step M temperature stop eos st of
        Inl e \<Rightarrow> Inl e
      | Inr st' \<Rightarrow>
          if list_all (\<lambda>b. b) (is_stopped st') then Inr st'
          else decode_loop n M temperature stop eos st')"

text \<open>The same loop, keeping the state after each iteration it runs.\<close>

fun decode_trace ::
  "nat \<Rightarrow> ('e, 'l) lm_ops \<Rightarrow> real \<Rightarrow> nat \<Rightarrow> nat
     \<Rightarrow> 'e decode_state \<Rightarrow> error + 'e decode_state list" where
  "decode_trace 0 M temperature stop eos st = Inr []"
| "decode_trace (Suc n) M temperature stop eos st =
     (case decode_step M temperature stop eos st of
        Inl e \<Rightarrow> Inl e
      | Inr st' \<Rightarrow>
          if list_all (\<lambda>b. b) (is_stopped st') then Inr [st']
          else (case decode_trace n M temperature stop eos st' of
                  Inl e \<Rightarrow> Inl e
                | Inr tr \<Rightarrow> Inr (st' # tr)))"

text \<open>
  Lines 445 to 477: \<^verbatim>\<open>for entry_idx in range(entry_count)\<close>. Each entry starts again
  from \<open>embed\<close> and keeps \<open>tokens\<close>, \<open>seq_lengths\<close> and \<open>is_stopped\<close> from the entry before.
  \<open>tokens.cpu()\<close> raises \<open>AttributeError\<close> while \<open>tokens\<close> is \<open>None\<close>. The token slices
  \<open>output[:int(length)]\<close> are given to the tokenizer's \<open>decode\<close>, a parameter.
\<close>

fun entry_loop ::
  "nat \<Rightarrow> (nat list \<Rightarrow> 't) \<Rightarrow> nat \<Rightarrow> ('e, 'l) lm_ops \<Rightarrow> real
     \<Rightarrow> nat \<Rightarrow> nat \<Rightarrow> 'e list list \<Rightarrow> 'e decode_state \<Rightarrow> 't list option
     \<Rightarrow> error + 't list option" where
  "entry_loop 0 decode entry_length M temperature stop eos prefix_embed st output_texts =
     Inr output_texts"
| "entry_loop (Suc k) decode entry_length M temperature stop eos prefix_embed st output_texts =
     (case decode_loop entry_length M temperature stop eos (st\<lparr>generated := prefix_embed\<rparr>) of
        Inl e \<Rightarrow> Inl e
      | Inr st' \<Rightarrow>
          (case tokens st' of
             None \<Rightarrow> Inl AttributeError
           | Some output_list \<Rightarrow>
               entry_loop k decode entry_length M temperature stop eos prefix_embed st'
                 (Some (map2 (\<lambda>output l. decode (take l output))
                          output_list (seq_lengths st')))))"

text \<open>
  \<open>generate_topk\<close> (lines 426 to 478). Line 440 reads \<open>embed.shape[0]\<close>, which raises
  \<open>AttributeError\<close> on \<open>None\<close>; so \<open>embed\<close> is given wherever the function goes on, the branch
  of lines 449 to 453 is never taken and \<open>prompt\<close> is never read. \<open>tokens\<close>, where given, are
  the rows that the chosen tokens are appended to. \<open>stop_token_index\<close> and
  \<open>eos_token_index\<close> come from the tokenizer; \<open>top_p\<close> is not used. With \<open>entry_count = 0\<close>
  the \<open>return\<close> reads a variable never assigned. The state before the first entry
  (lines 440 to 443) is \<open>decode_init\<close>; the model names \<open>embed\<close>, once known to be given,
  \<open>prefix_embed\<close>, as the caller does.
\<close>

definition decode_init :: "nat list list option \<Rightarrow> 'e list list \<Rightarrow> 'e decode_state" where
  "decode_init tokens0 prefix_embed =
     \<lparr>tokens = tokens0, generated = prefix_embed, next_tokens = [],
      seq_lengths = replicate (length prefix_embed) 1,
      is_stopped = replicate (length prefix_embed) False\<rparr>"

definition generate_topk ::
  "(nat list \<Rightarrow> 't) \<Rightarrow> ('e, 'l) lm_ops \<Rightarrow> nat list list option \<Rightarrow> string option
     \<Rightarrow> 'e list list option \<Rightarrow> nat \<Rightarrow> nat \<Rightarrow> real \<Rightarrow> nat \<Rightarrow> nat \<Rightarrow> error + 't list" where
  "generate_topk decode M tokens0 prompt embed0 entry_count entry_length temperature
     stop_token_index eos_token_index =
     (case embed0 of
        None \<Rightarrow> Inl AttributeError
      | Some prefix_embed \<Rightarrow>
          (case entry_loop entry_count decode entry_length M temperature
                  stop_token_index eos_token_index prefix_embed
                  (decode_init tokens0 prefix_embed) None of
             Inl e \<Rightarrow> Inl e
           | Inr None \<Rightarrow> Inl UnboundLocalError
           | Inr (Some output_texts) \<Rightarrow> Inr output_texts))"

text \<open>
  Two notions for the proofs. \<open>tok_rows\<close> reads \<open>tokens\<close> with \<open>None\<close> as one empty row for
  each sequence, so that a step appends one token to each row in both cases of line 460.
  \<open>wf_state B\<close> says that the four tensors of a state have \<open>B\<close> rows.
\<close>

definition tok_rows :: "'e decode_state \<Rightarrow> nat list list" where
  "tok_rows st = (case tokens st of None \<Rightarrow> replicate (length (generated st)) [] | Some ts \<Rightarrow> ts)"

definition wf_state :: "nat \<Rightarrow> 'e decode_state \<Rightarrow> bool" where
  "wf_state B st \<longleftrightarrow> length (generated st) = B \<and> length (seq_lengths st) = B
     \<and> length (is_stopped st) = B \<and> length (tok_rows st) = B"

section \<open>The attention block and the prefix mappers\<close>

subsection \<open>Tensors and broadcasting\<close>

text \<open>
  A tensor is its shape and its element at each index, an index being the list of the
  positions along the axes. \<open>of_lists2\<close>, \<open>of_lists3\<close> and \<open>of_lists4\<close> read a tensor of two,
  three and four axes from nested lists (of rows of equal lengths), \<open>to_lists4\<close> writes one
  of four axes back.
\<close>

record 'a tensor =
  dims :: "nat list"
  elem :: "nat list \<Rightarrow> 'a"

definition of_lists2 :: "'a list list \<Rightarrow> 'a tensor" where
  "of_lists2 x =
     \<lparr>dims = [length x, (case x of [] \<Rightarrow> 0 | r # _ \<Rightarrow> length r)],
      elem = (\<lambda>idx. x ! (idx ! 0) ! (idx ! 1))\<rparr>"

definition of_lists3 :: "'a list list list \<Rightarrow> 'a tensor" where
  "of_lists3 x =
     \<lparr>dims = length x # dims (of_lists2 (case x of [] \<Rightarrow> [] | r # _ \<Rightarrow> r)),
      elem = (\<lambda>idx. x ! (idx ! 0) ! (idx ! 1) ! (idx ! 2))\<rparr>"

definition of_lists4 :: "'a list list list list \<Rightarrow> 'a tensor" where
  "of_lists4 x =
     \<lparr>dims = length x # dims (of_lists3 (case x of [] \<Rightarrow> [] | r # _ \<Rightarrow> r)),
      elem = (\<lambda>idx. x ! (idx ! 0) ! (idx ! 1) ! (idx ! 2) ! (idx ! 3))\<rparr>"

definition to_lists4 :: "'a tensor \<Rightarrow> 'a list list list list" where
  "to_lists4 t =
     map (\<lambda>b. map (\<lambda>n. map (\<lambda>m. map (\<lambda>h. elem t [b, n, m, h])
       [0..<dims t ! 3]) [0..<dims t ! 2]) [0..<dims t ! 1]) [0..<dims t ! 0]"

text \<open>
  Broadcasting of two shapes, aligned at their last axes: two sizes go together if they
  are equal or one of them is one. \<open>bcast_rev\<close> works on the reversed shapes.
  \<open>bcast_index\<close> is the index into an operand for an index into the broadcast result.
\<close>

fun bcast_rev :: "nat list \<Rightarrow> nat list \<Rightarrow> error + nat list" where
  "bcast_rev [] ys = Inr ys"
| "bcast_rev (x # xs) [] = Inr (x # xs)"
| "bcast_rev (x # xs) (y # ys) =
     (if x = y \<or> y = 1 \<or> x = 1
      then (case bcast_rev xs ys of
              Inl e \<Rightarrow> Inl e
            | Inr r \<Rightarrow> Inr ((if x = 1 then y else x) # r))
      else Inl RuntimeError)"

definition broadcast_shapes :: "nat list \<Rightarrow> nat list \<Rightarrow> error + nat list" where
  "broadcast_shapes a b =
     (case bcast_rev (rev a) (rev b) of Inl e \<Rightarrow> Inl e | Inr r \<Rightarrow> Inr (rev r))"

definition bcast_index :: "nat list \<Rightarrow> nat list \<Rightarrow> nat list" where
  "bcast_index ds idx =
     map2 (\<lambda>d i. if d = 1 then 0 else i) ds (drop (length idx - length ds) idx)"

text \<open>
  \<open>unsqueeze(d)\<close> puts an axis of size one at position \<open>d\<close> and raises \<open>IndexError\<close> where
  \<open>d\<close> is beyond the number of axes. \<open>masked_fill(mask, value)\<close> takes a boolean mask,
  broadcasts the tensor and the mask together and writes the value where the mask holds
  \<open>True\<close>.
\<close>

definition unsqueeze_shape :: "nat \<Rightarrow> nat list \<Rightarrow> error + nat list" where
  "unsqueeze_shape d s =
     (if d \<le> length s then Inr (take d s @ [1] @ drop d s) else Inl IndexError)"

definition unsqueeze :: "nat \<Rightarrow> 'a tensor \<Rightarrow> error + 'a tensor" where
  "unsqueeze d t =
     (case unsqueeze_shape d (dims t) of
        Inl e \<Rightarrow> Inl e
      | Inr s \<Rightarrow> Inr \<lparr>dims = s, elem = (\<lambda>idx. elem t (take d idx @ drop (Suc d) idx))\<rparr>)"

definition masked_fill :: "'a tensor \<Rightarrow> bool tensor \<Rightarrow> 'a \<Rightarrow> error + 'a tensor" where
  "masked_fill t msk v =
     (case broadcast_shapes (dims t) (dims msk) of
        Inl e \<Rightarrow> Inl e
      | Inr s \<Rightarrow>
          Inr \<lparr>dims = s,
               elem = (\<lambda>idx. if elem msk (bcast_index (dims msk) idx) then v
                             else elem t (bcast_index (dims t) idx))\<rparr>)"

subsection \<open>Masking the attention scores\<close>

text \<open>
  A pre-softmax score is a float, finite or \<^verbatim>\<open>float("-inf")\<close>. The tensor \<open>attention\<close> of
  \<open>MultiHeadAttention.forward\<close> has the axes batch, query position, key position and head
  (\<^verbatim>\<open>'bnhd,bmhd->bnmh'\<close>). Lines 144 to 147 of \<open>train_IC.py\<close> give the scores as \<open>softmax\<close>
  receives them:
  \<^verbatim>\<open>
  if mask is not None:
      if mask.dim() == 2:
          mask = mask.unsqueeze(1)
      attention = attention.masked_fill(mask.unsqueeze(3), float("-inf"))
  \<close>
  \<open>mask_unsqueezed_shape\<close> is the shape of \<open>mask.unsqueeze(3)\<close> there.
\<close>

datatype score = Finite real | NegInf

definition mask_unsqueezed_shape :: "nat list \<Rightarrow> error + nat list" where
  "mask_unsqueezed_shape s =
     (case (if length s = 2 then unsqueeze_shape 1 s else Inr s) of
        Inl e \<Rightarrow> Inl e
      | Inr s1 \<Rightarrow> unsqueeze_shape 3 s1)"

definition masked_scores :: "score tensor \<Rightarrow> bool tensor option \<Rightarrow> error + score tensor" where
  "masked_scores attention msk =
     (case msk of
        None \<Rightarrow> Inr attention
      | Some m \<Rightarrow>
          (case (if length (dims m) = 2 then unsqueeze 1 m else Inr m) of
             Inl e \<Rightarrow> Inl e
           | Inr m1 \<Rightarrow>
               (case unsqueeze 3 m1 of
                  Inl e \<Rightarrow> Inl e
                | Inr m2 \<Rightarrow> masked_fill attention m2 NegInf)))"

subsection \<open>Shapes\<close>

text \<open>
  What the modules do to the shape of a tensor. \<open>nn.Linear(i, o)\<close> is the pair \<open>(i, o)\<close> and
  wants \<open>i\<close> as the last axis; \<open>nn.LayerNorm(d)\<close> wants \<open>d\<close> as the last axis; \<open>reshape\<close> to
  a given shape wants as many elements as the tensor has; \<open>view\<close> with one axis \<open>-1\<close> wants
  the known axes to have a non-zero product that divides the number of elements.
\<close>

type_synonym shape = "nat list"

type_synonym linear = "nat \<times> nat"

definition Linear_forward :: "linear \<Rightarrow> shape \<Rightarrow> error + shape" where
  "Linear_forward l s =
     (if s \<noteq> [] \<and> last s = fst l then Inr (butlast s @ [snd l]) else Inl RuntimeError)"

definition LayerNorm_forward :: "nat \<Rightarrow> shape \<Rightarrow> error + shape" where
  "LayerNorm_forward d s = (if s \<noteq> [] \<and> last s = d then Inr s else Inl RuntimeError)"

definition reshape :: "shape \<Rightarrow> shape \<Rightarrow> error + shape" where
  "reshape s target = (if prod_list target = prod_list s then Inr target else Inl RuntimeError)"

definition view_last_inferred :: "shape \<Rightarrow> nat list \<Rightarrow> error + shape" where
  "view_last_inferred s known =
     (if prod_list known \<noteq> 0 \<and> prod_list s mod prod_list known = 0
      then Inr (known @ [prod_list s div prod_list known]) else Inl RuntimeError)"

definition view_first_inferred :: "shape \<Rightarrow> nat list \<Rightarrow> error + shape" where
  "view_first_inferred s known =
     (if prod_list known \<noteq> 0 \<and> prod_list s mod prod_list known = 0
      then Inr (prod_list s div prod_list known # known) else Inl RuntimeError)"

text \<open>\<open>torch.cat(..., dim=1)\<close> of two tensors of three axes, and the sum of a residual.\<close>

definition cat_dim1 :: "shape \<Rightarrow> shape \<Rightarrow> error + shape" where
  "cat_dim1 s1 s2 =
     (case (s1, s2) of
        ([b1, n1, c1], [b2, n2, c2]) \<Rightarrow>
          if b1 = b2 \<and> c1 = c2 then Inr [b1, n1 + n2, c1] else Inl RuntimeError
      | _ \<Rightarrow> Inl RuntimeError)"

definition residual_add :: "shape \<Rightarrow> shape \<Rightarrow> error + shape" where
  "residual_add s1 s2 = (if s1 = s2 then Inr s1 else Inl RuntimeError)"

subsection \<open>\<open>MLP\<close>\<close>

text \<open>
  \<open>MLP\<close> (lines 89 to 101): \<open>nn.Linear(sizes[i], sizes[i + 1])\<close> for each \<open>i\<close>, an activation
  between them. \<open>forward\<close> applies them in order.
\<close>

fun MLP_forward :: "nat list \<Rightarrow> shape \<Rightarrow> error + shape" where
  "MLP_forward (a # b # sizes) s =
     (case Linear_forward (a, b) s of
        Inl e \<Rightarrow> Inl e
      | Inr s' \<Rightarrow> MLP_forward (b # sizes) s')"
| "MLP_forward sizes s = Inr s"

subsection \<open>\<open>MultiHeadAttention\<close>\<close>

record MultiHeadAttention =
  num_heads :: nat
  scale :: real
  to_queries :: linear
  to_keys_values :: linear
  project :: linear

text \<open>
  \<open>__init__\<close> (lines 124 to 132). \<open>dim_self // num_heads\<close> raises on \<open>num_heads = 0\<close> and
  \<open>head_dim ** -0.5\<close> raises on \<open>head_dim = 0\<close>, both \<open>ZeroDivisionError\<close>; nothing else is
  checked.
\<close>

definition MultiHeadAttention_init :: "nat \<Rightarrow> nat \<Rightarrow> nat \<Rightarrow> error + MultiHeadAttention" where
  "MultiHeadAttention_init dim_self dim_ref n_heads =
     (if n_heads = 0 then Inl ZeroDivisionError
      else
        let head_dim = dim_self div n_heads
        in if head_dim = 0 then Inl ZeroDivisionError
           else Inr \<lparr>num_heads = n_heads,
                     scale = real head_dim powr (- (1 / 2)),
                     to_queries = (dim_self, dim_self),
                     to_keys_values = (dim_ref, dim_self * 2),
                     project = (dim_self, dim_self)\<rparr>)"

text \<open>
  Two sizes under one subscript of \<open>einsum\<close> go together if they are equal or one of
  them is one.
\<close>

definition einsum_dim :: "nat \<Rightarrow> nat \<Rightarrow> error + nat" where
  "einsum_dim x y =
     (if x = y \<or> y = 1 then Inr x else if x = 1 then Inr y else Inl RuntimeError)"

text \<open>
  \<^verbatim>\<open>torch.einsum('bnmh,bmhd->bnhd', attention, values)\<close> on the shape of the masked scores
  and the shape \<open>(b, m, h, d)\<close> of \<open>values\<close>.
\<close>

definition einsum_out_shape :: "shape \<Rightarrow> nat \<Rightarrow> nat \<Rightarrow> nat \<Rightarrow> nat \<Rightarrow> error + shape" where
  "einsum_out_shape att b m h d =
     (case att of
        [b', n', m', h'] \<Rightarrow>
          (case einsum_dim b' b of
             Inl e \<Rightarrow> Inl e
           | Inr bo \<Rightarrow>
          (case einsum_dim m' m of
             Inl e \<Rightarrow> Inl e
           | Inr mo \<Rightarrow>
          (case einsum_dim h' h of
             Inl e \<Rightarrow> Inl e
           | Inr ho \<Rightarrow> Inr [bo, n', ho, d])))
      | _ \<Rightarrow> Inl RuntimeError)"

text \<open>
  \<open>forward\<close> (lines 134 to 151) on shapes: the shapes of \<open>out\<close> and of \<open>attention\<close>. \<open>x\<close> and
  \<open>y\<close> must have three axes (lines 136 and 137 unpack them); the mask is given by its
  shape.
\<close>

definition MultiHeadAttention_forward ::
  "MultiHeadAttention \<Rightarrow> shape \<Rightarrow> shape option \<Rightarrow> shape option \<Rightarrow> error + (shape \<times> shape)" where
  "MultiHeadAttention_forward a x y msk =
     (case (x, (case y of None \<Rightarrow> x | Some y' \<Rightarrow> y')) of
        ([b, n, c], [b', m, d]) \<Rightarrow>
          (case Linear_forward (to_queries a) [b, n, c] of
             Inl e \<Rightarrow> Inl e
           | Inr q \<Rightarrow>
          if num_heads a = 0 then Inl ZeroDivisionError else
          (case reshape q [b, n, num_heads a, c div num_heads a] of
             Inl e \<Rightarrow> Inl e
           | Inr queries \<Rightarrow>
          (case Linear_forward (to_keys_values a) [b', m, d] of
             Inl e \<Rightarrow> Inl e
           | Inr kv \<Rightarrow>
          (case reshape kv [b, m, 2, num_heads a, c div num_heads a] of
             Inl e \<Rightarrow> Inl e
           | Inr keys_values \<Rightarrow>
          (case (case msk of
                   None \<Rightarrow> Inr [b, n, m, num_heads a]
                 | Some ms \<Rightarrow>
                     (case mask_unsqueezed_shape ms of
                        Inl e \<Rightarrow> Inl e
                      | Inr ms' \<Rightarrow> broadcast_shapes [b, n, m, num_heads a] ms')) of
             Inl e \<Rightarrow> Inl e
           | Inr attention \<Rightarrow>
          (case einsum_out_shape attention b m (num_heads a) (c div num_heads a) of
             Inl e \<Rightarrow> Inl e
           | Inr o4 \<Rightarrow>
          (case reshape o4 [b, n, c] of
             Inl e \<Rightarrow> Inl e
           | Inr out \<Rightarrow>
          (case Linear_forward (project a) out of
             Inl e \<Rightarrow> Inl e
           | Inr out' \<Rightarrow> Inr (out', attention)))))))))
      | _ \<Rightarrow> Inl ValueError)"

subsection \<open>\<open>TransformerLayer\<close>, \<open>Transformer\<close> and \<open>TransformerMapper\<close>\<close>

record TransformerLayer =
  norm1 :: nat
  attn :: MultiHeadAttention
  norm2 :: nat
  mlp :: "linear \<times> linear"

text \<open>\<open>MlpTransformer.forward\<close> (lines 113 to 119): \<open>fc1\<close>, then \<open>fc2\<close>.\<close>

definition MlpTransformer_forward :: "linear \<times> linear \<Rightarrow> shape \<Rightarrow> error + shape" where
  "MlpTransformer_forward m s =
     (case Linear_forward (fst m) s of
        Inl e \<Rightarrow> Inl e
      | Inr s' \<Rightarrow> Linear_forward (snd m) s')"

text \<open>
  \<open>TransformerLayer.__init__\<close> (lines 167 to 173). The hidden width of the feed-forward
  block is \<open>int(dim_self * mlp_ratio)\<close>; \<open>nn.Linear\<close> raises on a negative width.
\<close>

definition TransformerLayer_init :: "nat \<Rightarrow> nat \<Rightarrow> nat \<Rightarrow> real \<Rightarrow> error + TransformerLayer" where
  "TransformerLayer_init dim_self dim_ref n_heads mlp_ratio =
     (case MultiHeadAttention_init dim_self dim_ref n_heads of
        Inl e \<Rightarrow> Inl e
      | Inr a \<Rightarrow>
          let h_dim = py_int (real dim_self * mlp_ratio)
          in if h_dim < 0 then Inl RuntimeError
             else Inr \<lparr>norm1 = dim_self, attn = a, norm2 = dim_self,
                       mlp = ((dim_self, nat h_dim), (nat h_dim, dim_self))\<rparr>)"

text \<open>\<open>TransformerLayer.forward\<close> (lines 162 to 165).\<close>

definition TransformerLayer_forward ::
  "TransformerLayer \<Rightarrow> shape \<Rightarrow> shape option \<Rightarrow> shape option \<Rightarrow> error + shape" where
  "TransformerLayer_forward l x y msk =
     (case LayerNorm_forward (norm1 l) x of
        Inl e \<Rightarrow> Inl e
      | Inr n1 \<Rightarrow>
     (case MultiHeadAttention_forward (attn l) n1 y msk of
        Inl e \<Rightarrow> Inl e
      | Inr (out, attention) \<Rightarrow>
     (case residual_add x out of
        Inl e \<Rightarrow> Inl e
      | Inr x1 \<Rightarrow>
     (case LayerNorm_forward (norm2 l) x1 of
        Inl e \<Rightarrow> Inl e
      | Inr n2 \<Rightarrow>
     (case MlpTransformer_forward (mlp l) n2 of
        Inl e \<Rightarrow> Inl e
      | Inr m \<Rightarrow> residual_add x1 m)))))"

record Transformer =
  enc_dec :: bool
  layers :: "TransformerLayer list"

text \<open>
  \<open>Transformer.__init__\<close> (lines 195 to 213): the layer with index \<open>i\<close> attends to \<open>dim_self\<close>
  on odd \<open>i\<close> of an encoder-decoder stack, to \<open>dim_ref\<close> otherwise.
\<close>

fun Transformer_init_layers ::
  "nat list \<Rightarrow> nat \<Rightarrow> nat \<Rightarrow> nat \<Rightarrow> real \<Rightarrow> bool \<Rightarrow> error + TransformerLayer list" where
  "Transformer_init_layers [] dim_self dim_ref n_heads mlp_ratio enc = Inr []"
| "Transformer_init_layers (i # is) dim_self dim_ref n_heads mlp_ratio enc =
     (case TransformerLayer_init dim_self
             (if i mod 2 = 0 \<and> enc then dim_ref else if enc then dim_self else dim_ref)
             n_heads mlp_ratio of
        Inl e \<Rightarrow> Inl e
      | Inr l \<Rightarrow>
          (case Transformer_init_layers is dim_self dim_ref n_heads mlp_ratio enc of
             Inl e \<Rightarrow> Inl e
           | Inr ls \<Rightarrow> Inr (l # ls)))"

definition Transformer_init ::
  "nat \<Rightarrow> nat \<Rightarrow> nat \<Rightarrow> nat option \<Rightarrow> real \<Rightarrow> bool \<Rightarrow> error + Transformer" where
  "Transformer_init dim_self n_heads num_layers dim_ref mlp_ratio enc =
     (let dim_ref' = (case dim_ref of None \<Rightarrow> dim_self | Some d \<Rightarrow> d);
          num_layers' = (if enc then num_layers * 2 else num_layers)
      in case Transformer_init_layers [0..<num_layers'] dim_self dim_ref' n_heads mlp_ratio enc of
           Inl e \<Rightarrow> Inl e
         | Inr ls \<Rightarrow> Inr \<lparr>enc_dec = enc, layers = ls\<rparr>)"

text \<open>\<open>Transformer.forward\<close> (lines 185 to 193), from layer index \<open>i\<close> on.\<close>

fun Transformer_forward_from ::
  "bool \<Rightarrow> nat \<Rightarrow> TransformerLayer list \<Rightarrow> shape \<Rightarrow> shape option \<Rightarrow> shape option
     \<Rightarrow> error + shape" where
  "Transformer_forward_from enc i [] x y msk = Inr x"
| "Transformer_forward_from enc i (l # ls) x y msk =
     (case (if i mod 2 = 0 \<and> enc then TransformerLayer_forward l x y None
            else if enc then TransformerLayer_forward l x (Some x) msk
            else TransformerLayer_forward l x y msk) of
        Inl e \<Rightarrow> Inl e
      | Inr x' \<Rightarrow> Transformer_forward_from enc (Suc i) ls x' y msk)"

definition Transformer_forward ::
  "Transformer \<Rightarrow> shape \<Rightarrow> shape option \<Rightarrow> shape option \<Rightarrow> error + shape" where
  "Transformer_forward t x y msk = Transformer_forward_from (enc_dec t) 0 (layers t) x y msk"

record TransformerMapper =
  clip_length :: nat
  transformer :: Transformer
  linear :: linear
  prefix_const :: shape

text \<open>\<open>TransformerMapper.__init__\<close> (lines 229 to 237): eight heads.\<close>

definition TransformerMapper_init ::
  "nat \<Rightarrow> nat \<Rightarrow> nat \<Rightarrow> nat \<Rightarrow> nat \<Rightarrow> error + TransformerMapper" where
  "TransformerMapper_init dim_clip dim_embedding pl cl num_layers =
     (case Transformer_init dim_embedding 8 num_layers None 2 False of
        Inl e \<Rightarrow> Inl e
      | Inr t \<Rightarrow> Inr \<lparr>clip_length = cl, transformer = t,
                      linear = (dim_clip, cl * dim_embedding),
                      prefix_const = [pl, dim_embedding]\<rparr>)"

text \<open>
  \<open>TransformerMapper.forward\<close> (lines 218 to 227). In line 221 \<open>self.linear(x)\<close> comes
  before \<open>x.shape[0]\<close>, which raises \<open>IndexError\<close> on a tensor without axes;
  \<open>[:, self.clip_length:]\<close> keeps the positions from \<open>clip_length\<close> on.
\<close>

definition TransformerMapper_forward :: "TransformerMapper \<Rightarrow> shape \<Rightarrow> error + shape" where
  "TransformerMapper_forward tm x =
     (case Linear_forward (linear tm) x of
        Inl e \<Rightarrow> Inl e
      | Inr l \<Rightarrow>
     (case x of
        [] \<Rightarrow> Inl IndexError
      | b # rest \<Rightarrow>
     (case view_last_inferred l [b, clip_length tm] of
        Inl e \<Rightarrow> Inl e
      | Inr x' \<Rightarrow>
     (case cat_dim1 x' (b # prefix_const tm) of
        Inl e \<Rightarrow> Inl e
      | Inr prefix \<Rightarrow>
     (case Transformer_forward (transformer tm) prefix None None of
        Inl e \<Rightarrow> Inl e
      | Inr out \<Rightarrow>
     (case out of
        [b', n, c] \<Rightarrow> Inr [b', n - clip_length tm, c]
      | _ \<Rightarrow> Inl IndexError))))))"

subsection \<open>The mapper inside \<open>ClipCaptionModel\<close>\<close>

datatype MappingType = MLP | Transformer

datatype clip_project = MLP_mapper "nat list" | Transformer_mapper TransformerMapper

text \<open>
  \<open>ClipCaptionModel.__init__\<close> (lines 254 to 267), the choice of \<open>clip_project\<close>;
  \<open>gpt_embedding_size\<close> is read from the language model.
\<close>

definition ClipCaptionModel_clip_project ::
  "nat \<Rightarrow> nat \<Rightarrow> nat \<Rightarrow> nat \<Rightarrow> MappingType \<Rightarrow> nat \<Rightarrow> error + clip_project" where
  "ClipCaptionModel_clip_project pl cl prefix_size num_layers mapping_type gpt_embedding_size =
     (if mapping_type = MLP
      then Inr (MLP_mapper [prefix_size, (gpt_embedding_size * pl) div 2, gpt_embedding_size * pl])
      else (case TransformerMapper_init prefix_size gpt_embedding_size pl cl num_layers of
              Inl e \<Rightarrow> Inl e
            | Inr tm \<Rightarrow> Inr (Transformer_mapper tm)))"

definition clip_project_forward :: "clip_project \<Rightarrow> shape \<Rightarrow> error + shape" where
  "clip_project_forward cp x =
     (case cp of
        MLP_mapper sizes \<Rightarrow> MLP_forward sizes x
      | Transformer_mapper tm \<Rightarrow> TransformerMapper_forward tm x)"

text \<open>
  Line 249, in \<open>ClipCaptionModel.forward\<close>:
  \<^verbatim>\<open>self.clip_project(prefix).view(-1, self.prefix_length, self.gpt_embedding_size)\<close>.
\<close>

definition prefix_projections :: "clip_project \<Rightarrow> nat \<Rightarrow> nat \<Rightarrow> shape \<Rightarrow> error + shape" where
  "prefix_projections cp pl gpt_embedding_size prefix =
     (case clip_project_forward cp prefix of
        Inl e \<Rightarrow> Inl e
      | Inr s \<Rightarrow> view_first_inferred s [pl, gpt_embedding_size])"

section \<open>Modules, their parameters and their training mode\<close>

text \<open>
  What \<open>torch.nn.Module\<close> keeps of a module for \<open>train\<close>, \<open>eval\<close> and \<open>parameters\<close>: its
  \<open>training\<close> flag, its own parameters (each parameter an object, named here by a number)
  and its child modules. \<open>train(mode)\<close> sets the flag of the module and of every module
  below it, \<open>eval()\<close> is \<open>train(False)\<close>, and \<open>parameters()\<close> yields the module's own
  parameters, then those of its children, each parameter object once.
\<close>

datatype nn_module = Module bool "nat list" "nn_module list"

fun nn_train :: "bool \<Rightarrow> nn_module \<Rightarrow> nn_module" where
  "nn_train mode (Module t ps cs) = Module mode ps (map (nn_train mode) cs)"

definition nn_eval :: "nn_module \<Rightarrow> nn_module" where
  "nn_eval m = nn_train False m"

fun named_parameters :: "nn_module \<Rightarrow> nat list" where
  "named_parameters (Module t ps cs) = ps @ concat (map named_parameters cs)"

definition nn_parameters :: "nn_module \<Rightarrow> nat list" where
  "nn_parameters m = rev (remdups (rev (named_parameters m)))"

text \<open>Every module of the tree has the flag \<open>v\<close>.\<close>

fun all_training :: "bool \<Rightarrow> nn_module \<Rightarrow> bool" where
  "all_training v (Module t ps cs) = (t = v \<and> list_all (all_training v) cs)"

text \<open>
  \<open>ClipCaptionModel\<close> (lines 240 to 267) is a module with no parameter of its own and the
  children \<open>gpt\<close> and \<open>clip_project\<close>, registered in this order. It inherits \<open>train\<close> and
  \<open>parameters\<close> from \<open>nn.Module\<close>.
\<close>

record ClipCaptionModel =
  training :: bool
  gpt :: nn_module
  clip_project :: nn_module

definition ClipCaptionModel_train :: "bool \<Rightarrow> ClipCaptionModel \<Rightarrow> ClipCaptionModel" where
  "ClipCaptionModel_train mode self =
     self\<lparr>training := mode, gpt := nn_train mode (gpt self),
          clip_project := nn_train mode (clip_project self)\<rparr>"

definition ClipCaptionModel_parameters :: "ClipCaptionModel \<Rightarrow> nat list" where
  "ClipCaptionModel_parameters self =
     rev (remdups (rev (named_parameters (gpt self) @ named_parameters (clip_project self))))"

text \<open>
  \<open>ClipCaptionPrefix\<close> (lines 270 to 278) overrides both:
  \<^verbatim>\<open>
  def parameters(self, recurse: bool = True):
      return self.clip_project.parameters()

  def train(self, mode: bool = True):
      super(ClipCaptionPrefix, self).train(mode)
      self.gpt.eval()
      return self
  \<close>
\<close>

definition ClipCaptionPrefix_parameters :: "ClipCaptionModel \<Rightarrow> nat list" where
  "ClipCaptionPrefix_parameters self = nn_parameters (clip_project self)"

definition ClipCaptionPrefix_train :: "bool \<Rightarrow> ClipCaptionModel \<Rightarrow> ClipCaptionModel" where
  "ClipCaptionPrefix_train mode self =
     (let self' = ClipCaptionModel_train mode self
      in self'\<lparr>gpt := nn_eval (gpt self')\<rparr>)"

section \<open>The supervision masks of a question/answer example\<close>

text \<open>
  C1 does not hold as the specification states it of every dataset it names: the copy of
  \<open>pad_tokens\<close> in \<open>trainy_notes_VQA.py\<close> returns one mask, and on a question of three tokens
  and an answer of two it marks two answer positions, with none for an end-of-sequence
  marker, where the statement has three.
\<close>

theorem notes_pad_tokens_two_answer_positions:
  "notes_ClipCocoDataset_pad_tokens (map (\<lambda>c. int (of_char c)))
      \<lparr>captions_tokens = [[10, 11, 12, 20, 21]], max_seq_len = 8, prefix_length = 2,
       answers = [''ab''], questions = [''xyz'']\<rparr> 0
    = Inr (\<lparr>captions_tokens = [[10, 11, 12, 20, 21, 0, 0, 0]], max_seq_len = 8,
            prefix_length = 2, answers = [''ab''], questions = [''xyz'']\<rparr>,
           [10, 11, 12, 20, 21, 0, 0, 0],
           [1, 1, 0, 0, 0, 1, 1, 0, 0, 0],
           [97, 98])"
  by (simp add: notes_ClipCocoDataset_pad_tokens_def Let_def pad_or_truncate_def
      zero_fill_def numeral_eq_Suc)

text \<open>
  C1, amended to the datasets that return two masks (\<open>ClipCocoDataset_VQA\<close> of
  \<open>train_MTL_IC_VQA.py\<close>; \<open>multi_gpu_visdial_vqa.py\<close> has the same lines). For an example
  whose question has \<open>q_len\<close> tokens and whose answer has \<open>a_len\<close> tokens (the answer's own
  tokens and one for the end-of-sequence marker), \<open>pad_tokens\<close> returns: when
  \<open>q_len + a_len \<le> max_seq_len\<close>, a loss mask of \<open>prefix_length\<close> ones, \<open>q_len\<close> zeros,
  \<open>a_len\<close> ones and \<open>max_seq_len - q_len - a_len\<close> zeros, and an attention mask of
  \<open>prefix_length\<close> ones, \<open>q_len + a_len\<close> ones and the same number of zeros; when
  \<open>q_len + a_len > max_seq_len\<close>, both masks are \<open>prefix_length\<close> ones and \<open>max_seq_len\<close>
  zeros.
\<close>

theorem pad_tokens_VQA_masks:
  assumes "item < length (captions_tokens ds)"
    and "item < length (answers ds)"
    and "item < length (questions ds)"
    and "q_len = length (encode (questions ds ! item))"
    and "a_len = length (encode (answers ds ! item)) + 1"
  shows "\<exists>ds' toks mask mask4gpt.
      ClipCocoDataset_VQA_pad_tokens encode ds item = Inr (ds', toks, mask, mask4gpt)
    \<and> (int (q_len + a_len) \<le> max_seq_len ds \<longrightarrow>
          mask = replicate (prefix_length ds) 1 @ replicate q_len 0 @ replicate a_len 1
                   @ replicate (nat (max_seq_len ds) - q_len - a_len) 0
        \<and> mask4gpt = replicate (prefix_length ds) 1 @ replicate (q_len + a_len) 1
                   @ replicate (nat (max_seq_len ds) - q_len - a_len) 0)
    \<and> (int (q_len + a_len) > max_seq_len ds \<longrightarrow>
          mask = replicate (prefix_length ds) 1 @ replicate (nat (max_seq_len ds)) 0
        \<and> mask4gpt = replicate (prefix_length ds) 1 @ replicate (nat (max_seq_len ds)) 0)"
proof -
  let ?rest = "max_seq_len ds - int q_len - int a_len"
  have fits: "int (q_len + a_len) \<le> max_seq_len ds \<Longrightarrow> ?rest \<ge> 0
      \<and> nat ?rest = nat (max_seq_len ds) - q_len - a_len"
    by linarith
  have over: "int (q_len + a_len) > max_seq_len ds \<Longrightarrow> \<not> ?rest \<ge> 0"
    by linarith
  have a: "int (length (encode (answers ds ! item))) + 1 = int a_len"
    using assms(5) by simp
  have q: "int (length (encode (questions ds ! item))) = int q_len"
    using assms(4) by simp
  show ?thesis
    using assms(1-3) fits over
    by (simp add: ClipCocoDataset_VQA_pad_tokens_def Let_def a q replicate_add
        del: replicate_Suc of_nat_add)
qed

theorem pad_tokens_VQA_masks_witness:
  "ClipCocoDataset_VQA_pad_tokens (map (\<lambda>c. int (of_char c)))
      \<lparr>captions_tokens = [[10, 11, 12, 20, 21, 50256], [10, 11, 12, 13, 14, 20, 21, 22, 50256]],
       max_seq_len = 8, prefix_length = 2,
       answers = [''ab'', ''abc''], questions = [''xyz'', ''vwxyz'']\<rparr> 0
    = Inr (\<lparr>captions_tokens = [[10, 11, 12, 20, 21, 50256, 0, 0],
                                [10, 11, 12, 13, 14, 20, 21, 22, 50256]],
            max_seq_len = 8, prefix_length = 2,
            answers = [''ab'', ''abc''], questions = [''xyz'', ''vwxyz'']\<rparr>,
           [10, 11, 12, 20, 21, 50256, 0, 0],
           [1, 1, 0, 0, 0, 1, 1, 1, 0, 0],
           [1, 1, 1, 1, 1, 1, 1, 1, 0, 0])
   \<and> (\<exists>ds' toks.
       ClipCocoDataset_VQA_pad_tokens (map (\<lambda>c. int (of_char c)))
         \<lparr>captions_tokens = [[10, 11, 12, 20, 21, 50256],
                             [10, 11, 12, 13, 14, 20, 21, 22, 50256]],
          max_seq_len = 8, prefix_length = 2,
          answers = [''ab'', ''abc''], questions = [''xyz'', ''vwxyz'']\<rparr> 1
       = Inr (ds', toks, [1, 1, 0, 0, 0, 0, 0, 0, 0, 0], [1, 1, 0, 0, 0, 0, 0, 0, 0, 0]))"
proof -
  let ?enc = "map (\<lambda>c. int (of_char c)) :: string \<Rightarrow> int list"
  let ?ds = "\<lparr>captions_tokens = [[10, 11, 12, 20, 21, 50256],
                                 [10, 11, 12, 13, 14, 20, 21, 22, 50256]],
              max_seq_len = 8, prefix_length = 2,
              answers = [''ab'', ''abc''], questions = [''xyz'', ''vwxyz'']\<rparr>"
  have w0: "\<exists>ds' toks mask mask4gpt.
      ClipCocoDataset_VQA_pad_tokens ?enc ?ds 0 = Inr (ds', toks, mask, mask4gpt)
    \<and> (int (3 + 3) \<le> max_seq_len ?ds \<longrightarrow>
          mask = replicate (prefix_length ?ds) 1 @ replicate 3 0 @ replicate 3 1
                   @ replicate (nat (max_seq_len ?ds) - 3 - 3) 0
        \<and> mask4gpt = replicate (prefix_length ?ds) 1 @ replicate (3 + 3) 1
                   @ replicate (nat (max_seq_len ?ds) - 3 - 3) 0)
    \<and> (int (3 + 3) > max_seq_len ?ds \<longrightarrow>
          mask = replicate (prefix_length ?ds) 1 @ replicate (nat (max_seq_len ?ds)) 0
        \<and> mask4gpt = replicate (prefix_length ?ds) 1 @ replicate (nat (max_seq_len ?ds)) 0)"
    by (rule pad_tokens_VQA_masks [of 0 ?ds 3 ?enc 3]) simp_all
  have w1: "\<exists>ds' toks mask mask4gpt.
      ClipCocoDataset_VQA_pad_tokens ?enc ?ds 1 = Inr (ds', toks, mask, mask4gpt)
    \<and> (int (5 + 4) \<le> max_seq_len ?ds \<longrightarrow>
          mask = replicate (prefix_length ?ds) 1 @ replicate 5 0 @ replicate 4 1
                   @ replicate (nat (max_seq_len ?ds) - 5 - 4) 0
        \<and> mask4gpt = replicate (prefix_length ?ds) 1 @ replicate (5 + 4) 1
                   @ replicate (nat (max_seq_len ?ds) - 5 - 4) 0)
    \<and> (int (5 + 4) > max_seq_len ?ds \<longrightarrow>
          mask = replicate (prefix_length ?ds) 1 @ replicate (nat (max_seq_len ?ds)) 0
        \<and> mask4gpt = replicate (prefix_length ?ds) 1 @ replicate (nat (max_seq_len ?ds)) 0)"
    by (rule pad_tokens_VQA_masks [of 1 ?ds 5 ?enc 4]) simp_all
  have e0: "ClipCocoDataset_VQA_pad_tokens ?enc ?ds 0
    = Inr (\<lparr>captions_tokens = [[10, 11, 12, 20, 21, 50256, 0, 0],
                                [10, 11, 12, 13, 14, 20, 21, 22, 50256]],
            max_seq_len = 8, prefix_length = 2,
            answers = [''ab'', ''abc''], questions = [''xyz'', ''vwxyz'']\<rparr>,
           [10, 11, 12, 20, 21, 50256, 0, 0],
           [1, 1, 0, 0, 0, 1, 1, 1, 0, 0],
           [1, 1, 1, 1, 1, 1, 1, 1, 0, 0])"
    using w0
    by (simp add: ClipCocoDataset_VQA_pad_tokens_def Let_def pad_or_truncate_def
        zero_fill_def numeral_eq_Suc)
  from w1 obtain ds' toks mask mask4gpt where
    r: "ClipCocoDataset_VQA_pad_tokens ?enc ?ds 1 = Inr (ds', toks, mask, mask4gpt)"
    and m: "mask = replicate (prefix_length ?ds) 1 @ replicate (nat (max_seq_len ?ds)) 0"
           "mask4gpt = replicate (prefix_length ?ds) 1 @ replicate (nat (max_seq_len ?ds)) 0"
    by auto
  have "mask = [1, 1, 0, 0, 0, 0, 0, 0, 0, 0]" "mask4gpt = [1, 1, 0, 0, 0, 0, 0, 0, 0, 0]"
    using m by (simp_all add: numeral_eq_Suc)
  with r e0 show ?thesis by blast
qed

text \<open>
  The copy in \<open>trainy_notes_VQA.py\<close> builds its one mask from the answer's own token count,
  with no position for an end-of-sequence marker.
\<close>

lemma notes_pad_tokens_mask:
  assumes "item < length (captions_tokens ds)"
    and "item < length (answers ds)"
    and "item < length (questions ds)"
    and "q_len = length (encode (questions ds ! item))"
    and "a_len = length (encode (answers ds ! item))"
  shows "\<exists>ds' toks msk.
      notes_ClipCocoDataset_pad_tokens encode ds item
        = Inr (ds', toks, msk, encode (answers ds ! item))
    \<and> (int (q_len + a_len) \<le> max_seq_len ds \<longrightarrow>
          msk = replicate (prefix_length ds) 1 @ replicate q_len 0 @ replicate a_len 1
                   @ replicate (nat (max_seq_len ds) - q_len - a_len) 0)
    \<and> (int (q_len + a_len) > max_seq_len ds \<longrightarrow>
          msk = replicate (prefix_length ds) 1 @ replicate (nat (max_seq_len ds)) 0)"
proof -
  let ?rest = "max_seq_len ds - int q_len - int a_len"
  have fits: "int (q_len + a_len) \<le> max_seq_len ds \<Longrightarrow> ?rest \<ge> 0
      \<and> nat ?rest = nat (max_seq_len ds) - q_len - a_len"
    by linarith
  have over: "int (q_len + a_len) > max_seq_len ds \<Longrightarrow> \<not> ?rest \<ge> 0"
    by linarith
  show ?thesis
    using assms fits over
    by (simp add: notes_ClipCocoDataset_pad_tokens_def Let_def del: of_nat_add)
qed

section \<open>The masked attention scores\<close>

lemma broadcast_shapes_mask4:
  "broadcast_shapes [b, n, m, h] [b, Suc 0, m, Suc 0] = Inr [b, n, m, h]"
  "broadcast_shapes [b, n, m, h] [b, n, m, Suc 0] = Inr [b, n, m, h]"
  by (simp_all add: broadcast_shapes_def)

lemma bcast_index_in_range:
  assumes "i < b" and "q < n" and "k < m" and "j < h"
  shows "bcast_index [b, n, m, h] [i, q, k, j] = [i, q, k, j]"
    and "bcast_index [b, Suc 0, m, Suc 0] [i, q, k, j] = [i, 0, k, 0]"
    and "bcast_index [b, n, m, Suc 0] [i, q, k, j] = [i, q, k, 0]"
  using assms by (auto simp: bcast_index_def)

lemma masked_scores_two_axes:
  assumes a: "dims attention = [b, n, m, h]" and m: "dims msk = [b, m]"
  shows "\<exists>attention'.
            masked_scores attention (Some msk) = Inr attention'
          \<and> dims attention' = [b, n, m, h]
          \<and> (\<forall>i<b. \<forall>q<n. \<forall>k<m. \<forall>j<h.
                elem attention' [i, q, k, j]
                  = (if elem msk [i, k] then NegInf else elem attention [i, q, k, j]))"
proof -
  let ?m1 = "\<lparr>dims = [b, Suc 0, m], elem = (\<lambda>idx. elem msk (take 1 idx @ drop (Suc 1) idx))\<rparr>"
  let ?m2 = "\<lparr>dims = [b, Suc 0, m, Suc 0], elem = (\<lambda>idx. elem ?m1 (take 3 idx @ drop (Suc 3) idx))\<rparr>"
  let ?r = "\<lparr>dims = [b, n, m, h],
      elem = (\<lambda>idx. if elem ?m2 (bcast_index (dims ?m2) idx) then NegInf
                    else elem attention (bcast_index (dims attention) idx))\<rparr>"
  have u1: "unsqueeze 1 msk = Inr ?m1"
    by (simp add: unsqueeze_def unsqueeze_shape_def m)
  have u3: "unsqueeze 3 ?m1 = Inr ?m2"
    by (simp add: unsqueeze_def unsqueeze_shape_def)
  have f: "masked_fill attention ?m2 NegInf = Inr ?r"
    by (simp add: masked_fill_def a broadcast_shapes_mask4)
  have r: "masked_scores attention (Some msk) = Inr ?r"
    unfolding masked_scores_def using m u1 u3 f by simp
  have p: "elem ?r [i, q, k, j] = (if elem msk [i, k] then NegInf else elem attention [i, q, k, j])"
    if "i < b" "q < n" "k < m" "j < h" for i q k j
    using that by (simp add: a bcast_index_in_range)
  from r p show ?thesis by (intro exI [of _ ?r]) simp
qed

lemma masked_scores_three_axes:
  assumes a: "dims attention = [b, n, m, h]" and m: "dims msk = [b, n, m]"
  shows "\<exists>attention'.
            masked_scores attention (Some msk) = Inr attention'
          \<and> dims attention' = [b, n, m, h]
          \<and> (\<forall>i<b. \<forall>q<n. \<forall>k<m. \<forall>j<h.
                elem attention' [i, q, k, j]
                  = (if elem msk [i, q, k] then NegInf else elem attention [i, q, k, j]))"
proof -
  let ?m2 = "\<lparr>dims = [b, n, m, Suc 0], elem = (\<lambda>idx. elem msk (take 3 idx @ drop (Suc 3) idx))\<rparr>"
  let ?r = "\<lparr>dims = [b, n, m, h],
      elem = (\<lambda>idx. if elem ?m2 (bcast_index (dims ?m2) idx) then NegInf
                    else elem attention (bcast_index (dims attention) idx))\<rparr>"
  have u3: "unsqueeze 3 msk = Inr ?m2"
    by (simp add: unsqueeze_def unsqueeze_shape_def m)
  have f: "masked_fill attention ?m2 NegInf = Inr ?r"
    by (simp add: masked_fill_def a broadcast_shapes_mask4)
  have r: "masked_scores attention (Some msk) = Inr ?r"
    unfolding masked_scores_def using m u3 f by simp
  have p: "elem ?r [i, q, k, j] = (if elem msk [i, q, k] then NegInf else elem attention [i, q, k, j])"
    if "i < b" "q < n" "k < m" "j < h" for i q k j
    using that by (simp add: a bcast_index_in_range)
  from r p show ?thesis by (intro exI [of _ ?r]) simp
qed

lemma upt_small: "[0..<1] = [0]" "[0..<2] = [0, 1]" "[0..<3] = [0, 1, 2]"
  by (simp_all add: eval_nat_numeral)

text \<open>
  C2 does not hold as the specification states it: for one query, one head and two keys,
  with the mask \<open>[1, 0]\<close> (first key real content, second key padding), the score of the
  first key is set to minus infinity and the score of the second key is left as it was,
  the opposite of the stated convention.
\<close>

theorem masked_scores_fills_where_mask_is_one:
  "(case masked_scores (of_lists4 [[[[Finite 0], [Finite 0]]]])
           (Some (of_lists2 [[True, False]])) of
      Inl e \<Rightarrow> Inl e
    | Inr t \<Rightarrow> Inr (dims t, to_lists4 t))
     = Inr ([1, 1, 2, 1], [[[[NegInf], [Finite 0]]]])
   \<and> (case masked_scores (of_lists4 [[[[Finite 0], [Finite 0]]]])
           (Some (of_lists2 [[True, False]])) of
      Inl e \<Rightarrow> Inl e
    | Inr t \<Rightarrow> Inr (dims t, to_lists4 t))
     \<noteq> Inr ([1, 1, 2, 1], [[[[Finite 0], [NegInf]]]])"
proof -
  let ?a = "of_lists4 [[[[Finite 0], [Finite 0]]]]"
  let ?m = "of_lists2 [[True, False]]"
  have d: "dims ?a = [1, 1, 2, 1]" "dims ?m = [1, 2]"
    by (simp_all add: of_lists4_def of_lists3_def of_lists2_def)
  from masked_scores_two_axes [OF d] obtain t where
    t: "masked_scores ?a (Some ?m) = Inr t" and dt: "dims t = [1, 1, 2, 1]"
    and p: "\<forall>i<1. \<forall>q<1. \<forall>k<2. \<forall>j<1.
        elem t [i, q, k, j] = (if elem ?m [i, k] then NegInf else elem ?a [i, q, k, j])"
    by blast
  from p [rule_format, of 0 0 0 0] have e0: "elem t [0, 0, 0, 0] = NegInf"
    by (simp add: of_lists2_def)
  from p [rule_format, of 0 0 1 0] have e1: "elem t [0, 0, 1, 0] = Finite 0"
    by (simp add: of_lists2_def of_lists4_def)
  have "to_lists4 t = [[[[NegInf], [Finite 0]]]]"
    using e0 e1 by (simp add: to_lists4_def dt upt_small)
  with t dt show ?thesis by simp
qed

text \<open>
  C2, amended. Without a mask the scores are unchanged. With a boolean mask of two axes
  that has the batch and key sizes of the scores, the masked scores have the shape of the
  scores, and the score of batch element \<open>i\<close>, query \<open>q\<close>, key \<open>k\<close> and head \<open>j\<close> is minus
  infinity where the mask holds \<open>True\<close> (one) at \<open>(i, k)\<close> and is unchanged where it holds
  \<open>False\<close> (zero), for every query and every head. With a boolean mask of three axes that
  has the batch, query and key sizes of the scores, the same holds with the mask read at
  \<open>(i, q, k)\<close>, for every head.
\<close>

theorem masked_scores_true_is_masked:
  assumes "dims attention = [b, n, m, h]"
  shows "masked_scores attention None = Inr attention
    \<and> (dims mask2 = [b, m] \<longrightarrow>
        (\<exists>attention'.
            masked_scores attention (Some mask2) = Inr attention'
          \<and> dims attention' = [b, n, m, h]
          \<and> (\<forall>i<b. \<forall>q<n. \<forall>k<m. \<forall>j<h.
                elem attention' [i, q, k, j]
                  = (if elem mask2 [i, k] then NegInf else elem attention [i, q, k, j]))))
    \<and> (dims mask3 = [b, n, m] \<longrightarrow>
        (\<exists>attention'.
            masked_scores attention (Some mask3) = Inr attention'
          \<and> dims attention' = [b, n, m, h]
          \<and> (\<forall>i<b. \<forall>q<n. \<forall>k<m. \<forall>j<h.
                elem attention' [i, q, k, j]
                  = (if elem mask3 [i, q, k] then NegInf else elem attention [i, q, k, j]))))"
proof (intro conjI impI)
  show "masked_scores attention None = Inr attention"
    by (simp add: masked_scores_def)
next
  assume "dims mask2 = [b, m]"
  with assms show "\<exists>attention'.
            masked_scores attention (Some mask2) = Inr attention'
          \<and> dims attention' = [b, n, m, h]
          \<and> (\<forall>i<b. \<forall>q<n. \<forall>k<m. \<forall>j<h.
                elem attention' [i, q, k, j]
                  = (if elem mask2 [i, k] then NegInf else elem attention [i, q, k, j]))"
    by (rule masked_scores_two_axes)
next
  assume "dims mask3 = [b, n, m]"
  with assms show "\<exists>attention'.
            masked_scores attention (Some mask3) = Inr attention'
          \<and> dims attention' = [b, n, m, h]
          \<and> (\<forall>i<b. \<forall>q<n. \<forall>k<m. \<forall>j<h.
                elem attention' [i, q, k, j]
                  = (if elem mask3 [i, q, k] then NegInf else elem attention [i, q, k, j]))"
    by (rule masked_scores_three_axes)
qed

theorem masked_scores_true_is_masked_witness:
  "dims (of_lists4 [[[[Finite 1, Finite 2], [Finite 3, Finite 4], [Finite 5, Finite 6]],
                     [[Finite 7, Finite 8], [Finite 9, Finite 10], [Finite 11, Finite 12]]]])
     = [1, 2, 3, 2]
   \<and> dims (of_lists2 [[True, True, False]]) = [1, 3]
   \<and> dims (of_lists3 [[[True, True, False], [False, False, True]]]) = [1, 2, 3]
   \<and> (\<exists>attention'.
        masked_scores
          (of_lists4 [[[[Finite 1, Finite 2], [Finite 3, Finite 4], [Finite 5, Finite 6]],
                       [[Finite 7, Finite 8], [Finite 9, Finite 10], [Finite 11, Finite 12]]]])
          (Some (of_lists2 [[True, True, False]])) = Inr attention'
      \<and> elem attention' [0, 1, 0, 1] = NegInf
      \<and> elem attention' [0, 1, 2, 0] = Finite 11)
   \<and> (\<exists>attention'.
        masked_scores
          (of_lists4 [[[[Finite 1, Finite 2], [Finite 3, Finite 4], [Finite 5, Finite 6]],
                       [[Finite 7, Finite 8], [Finite 9, Finite 10], [Finite 11, Finite 12]]]])
          (Some (of_lists3 [[[True, True, False], [False, False, True]]])) = Inr attention'
      \<and> elem attention' [0, 1, 0, 1] = Finite 8
      \<and> elem attention' [0, 1, 2, 0] = NegInf)"
proof -
  define a :: "score tensor" where "a = of_lists4 [[[[Finite 1, Finite 2], [Finite 3, Finite 4], [Finite 5, Finite 6]],
              [[Finite 7, Finite 8], [Finite 9, Finite 10], [Finite 11, Finite 12]]]]"
  define m2 where "m2 = of_lists2 [[True, True, False]]"
  define m3 where "m3 = of_lists3 [[[True, True, False], [False, False, True]]]"
  have da: "dims a = [1, 2, 3, 2]" and d2: "dims m2 = [1, 3]" and d3: "dims m3 = [1, 2, 3]"
    by (simp_all add: a_def m2_def m3_def of_lists4_def of_lists3_def of_lists2_def)
  note T = masked_scores_true_is_masked [OF da, of m2 m3]
  from T [THEN conjunct2, THEN conjunct1, rule_format, OF d2]
  obtain t2 where
    r2: "masked_scores a (Some m2) = Inr t2"
    and p2: "\<forall>i<1. \<forall>q<2. \<forall>k<3. \<forall>j<2.
        elem t2 [i, q, k, j] = (if elem m2 [i, k] then NegInf else elem a [i, q, k, j])"
    by (elim exE conjE)
  from T [THEN conjunct2, THEN conjunct2, rule_format, OF d3]
  obtain t3 where
    r3: "masked_scores a (Some m3) = Inr t3"
    and p3: "\<forall>i<1. \<forall>q<2. \<forall>k<3. \<forall>j<2.
        elem t3 [i, q, k, j] = (if elem m3 [i, q, k] then NegInf else elem a [i, q, k, j])"
    by (elim exE conjE)
  have e1: "elem t2 [0, 1, 0, 1] = NegInf"
    using p2 [rule_format, of 0 1 0 1] by (simp add: a_def m2_def of_lists4_def of_lists2_def)
  have e2: "elem t2 [0, 1, 2, 0] = Finite 11"
    using p2 [rule_format, of 0 1 2 0] by (simp add: a_def m2_def of_lists4_def of_lists2_def)
  have e3: "elem t3 [0, 1, 0, 1] = Finite 8"
    using p3 [rule_format, of 0 1 0 1] by (simp add: a_def m3_def of_lists4_def of_lists3_def)
  have e4: "elem t3 [0, 1, 2, 0] = NegInf"
    using p3 [rule_format, of 0 1 2 0] by (simp add: a_def m3_def of_lists4_def of_lists3_def)
  have x2: "\<exists>t. masked_scores a (Some m2) = Inr t \<and> elem t [0, 1, 0, 1] = NegInf
      \<and> elem t [0, 1, 2, 0] = Finite 11"
    using r2 e1 e2 by (intro exI [of _ t2] conjI)
  have x3: "\<exists>t. masked_scores a (Some m3) = Inr t \<and> elem t [0, 1, 0, 1] = Finite 8
      \<and> elem t [0, 1, 2, 0] = NegInf"
    using r3 e3 e4 by (intro exI [of _ t3] conjI)
  from da d2 d3 x2 x3 show ?thesis
    unfolding a_def m2_def m3_def by (intro conjI)
qed

section \<open>The lengths returned by the decoding loop\<close>

lemma those_map_length: "those (map f xs) = Some ys \<Longrightarrow> length ys = length xs"
  by (induction xs arbitrary: ys) (auto split: option.splits)

lemma those_map_total:
  "(\<And>x. x \<in> set xs \<Longrightarrow> f x \<noteq> None) \<Longrightarrow> \<exists>ys. those (map f xs) = Some ys"
  by (induction xs) (auto split: option.splits)

lemma map_singleton_map2:
  "length nxt = B \<Longrightarrow> map (\<lambda>t. [t]) nxt = map2 (\<lambda>r t. r @ [t]) (replicate B []) nxt"
  by (auto simp: list_eq_iff_nth_eq)

lemma decode_step_props:
  assumes s: "decode_step M T stop eos st = Inr st'" and wf: "wf_state B st"
  shows "wf_state B st'" and "tokens st' \<noteq> None" and "length (next_tokens st') = B"
    and "j < B \<Longrightarrow> tok_rows st' ! j = tok_rows st ! j @ [next_tokens st' ! j]"
    and "j < B \<Longrightarrow> seq_lengths st' ! j
           = (if is_stopped st ! j then seq_lengths st ! j else seq_lengths st ! j + 1)"
    and "j < B \<Longrightarrow> is_stopped st' ! j
           = (is_stopped st ! j \<or> next_tokens st' ! j = stop \<or> next_tokens st' ! j = eos)"
proof -
  from s obtain nxt where
    n: "those (map (next_token M T) (generated st)) = Some nxt"
    and st': "st' = st\<lparr>tokens := Some (case tokens st of
                                     None \<Rightarrow> map (\<lambda>t. [t]) nxt
                                   | Some ts \<Rightarrow> map2 (\<lambda>r t. r @ [t]) ts nxt),
                  generated := map2 (\<lambda>g t. g @ [lm_wte M t]) (generated st) nxt,
                  next_tokens := nxt,
                  seq_lengths := map2 (\<lambda>l s. if s then l else l + 1)
                                   (seq_lengths st) (is_stopped st),
                  is_stopped := map2 (\<lambda>s t. s \<or> t = stop \<or> t = eos)
                                  (is_stopped st) nxt\<rparr>"
    by (auto simp: decode_step_def split: option.splits if_splits)
  have ln: "length nxt = B" using those_map_length [OF n] wf by (simp add: wf_state_def)
  have rows: "tok_rows st' = map2 (\<lambda>r t. r @ [t]) (tok_rows st) nxt"
    using wf ln by (cases "tokens st") (simp_all add: st' tok_rows_def wf_state_def map_singleton_map2)
  show "wf_state B st'" using wf ln rows by (simp add: wf_state_def) (simp add: st')
  show "tokens st' \<noteq> None" by (simp add: st')
  show "length (next_tokens st') = B" using ln by (simp add: st')
  show "j < B \<Longrightarrow> tok_rows st' ! j = tok_rows st ! j @ [next_tokens st' ! j]"
    using wf ln by (simp add: rows wf_state_def) (simp add: st')
  show "j < B \<Longrightarrow> seq_lengths st' ! j
           = (if is_stopped st ! j then seq_lengths st ! j else seq_lengths st ! j + 1)"
    using wf by (simp add: st' wf_state_def)
  show "j < B \<Longrightarrow> is_stopped st' ! j
           = (is_stopped st ! j \<or> next_tokens st' ! j = stop \<or> next_tokens st' ! j = eos)"
    using wf ln by (simp add: st' wf_state_def)
qed

lemma decode_step_total:
  assumes "\<forall>row. next_token M T row \<noteq> None" and "wf_state B st"
  shows "\<exists>st'. decode_step M T stop eos st = Inr st'"
proof -
  from assms(1) obtain ys where
    ys: "those (map (next_token M T) (generated st)) = Some ys"
    using those_map_total [of "generated st" "next_token M T"] by auto
  have "length ys = B" using those_map_length [OF ys] assms(2) by (simp add: wf_state_def)
  then have "\<not> (case tokens st of None \<Rightarrow> False | Some ts \<Rightarrow> length ts \<noteq> length ys)"
    using assms(2) by (auto simp: wf_state_def tok_rows_def split: option.splits)
  with ys show ?thesis by (simp add: decode_step_def)
qed

lemma decode_trace_total:
  assumes "\<forall>row. next_token M T row \<noteq> None"
  shows "wf_state B st \<Longrightarrow> \<exists>tr. decode_trace n M T stop eos st = Inr tr"
proof (induction n arbitrary: st)
  case 0
  show ?case by simp
next
  case (Suc n)
  from decode_step_total [OF assms Suc.prems] obtain st' where
    s: "decode_step M T stop eos st = Inr st'" by blast
  have "wf_state B st'" by (rule decode_step_props(1) [OF s Suc.prems])
  from Suc.IH [OF this] obtain tr where "decode_trace n M T stop eos st' = Inr tr" by blast
  with s show ?case by simp
qed

lemma decode_loop_trace:
  "decode_loop n M T stop eos st =
     (case decode_trace n M T stop eos st of
        Inl e \<Rightarrow> Inl e | Inr tr \<Rightarrow> Inr (last (st # tr)))"
  by (induction n arbitrary: st) (auto split: sum.splits)

lemma decode_trace_length:
  "decode_trace n M T stop eos st = Inr tr \<Longrightarrow> length tr \<le> n"
  by (induction n arbitrary: st tr) (auto split: sum.splits if_splits)

lemma decode_trace_nonempty:
  "0 < n \<Longrightarrow> decode_trace n M T stop eos st = Inr tr \<Longrightarrow> tr \<noteq> []"
  by (cases n) (auto split: sum.splits if_splits)

lemma decode_trace_step:
  "decode_trace n M T stop eos st = Inr tr \<Longrightarrow> t < length tr
     \<Longrightarrow> decode_step M T stop eos ((st # tr) ! t) = Inr (tr ! t)"
proof (induction n arbitrary: st tr t)
  case 0
  then show ?case by simp
next
  case (Suc n)
  from Suc.prems(1) obtain st' where
    s: "decode_step M T stop eos st = Inr st'"
    by (auto split: sum.splits)
  show ?case
  proof (cases "list_all (\<lambda>b. b) (is_stopped st')")
    case True
    with Suc.prems s show ?thesis by auto
  next
    case False
    with Suc.prems(1) s obtain tr' where
      r: "decode_trace n M T stop eos st' = Inr tr'" and tr: "tr = st' # tr'"
      by (auto split: sum.splits)
    show ?thesis
    proof (cases t)
      case 0
      with s tr show ?thesis by simp
    next
      case (Suc u)
      with Suc.prems(2) tr have "u < length tr'" by simp
      from Suc.IH [OF r this] Suc tr show ?thesis by simp
    qed
  qed
qed

lemma decode_trace_early:
  "decode_trace n M T stop eos st = Inr tr \<Longrightarrow> length tr < n
     \<Longrightarrow> tr \<noteq> [] \<and> list_all (\<lambda>b. b) (is_stopped (last tr))"
proof (induction n arbitrary: st tr)
  case 0
  then show ?case by simp
next
  case (Suc n)
  from Suc.prems(1) obtain st' where
    s: "decode_step M T stop eos st = Inr st'"
    by (auto split: sum.splits)
  show ?case
  proof (cases "list_all (\<lambda>b. b) (is_stopped st')")
    case True
    with Suc.prems s show ?thesis by auto
  next
    case False
    with Suc.prems(1) s obtain tr' where
      r: "decode_trace n M T stop eos st' = Inr tr'" and tr: "tr = st' # tr'"
      by (auto split: sum.splits)
    from Suc.prems(2) tr have "length tr' < n" by simp
    from Suc.IH [OF r this] tr show ?thesis by simp
  qed
qed


lemma trace_wf:
  assumes tr: "decode_trace n M T stop eos st = Inr tr" and wf: "wf_state B st"
  shows "t \<le> length tr \<Longrightarrow> wf_state B ((st # tr) ! t)"
proof (induction t)
  case 0
  show ?case using wf by simp
next
  case (Suc t)
  then have "decode_step M T stop eos ((st # tr) ! t) = Inr (tr ! t)"
    and "wf_state B ((st # tr) ! t)"
    using decode_trace_step [OF tr, of t] by simp_all
  then show ?case using decode_step_props(1) by fastforce
qed

lemma trace_rows_length:
  assumes tr: "decode_trace n M T stop eos st = Inr tr" and wf: "wf_state B st"
    and j: "j < B"
  shows "t \<le> length tr \<Longrightarrow>
    length (tok_rows ((st # tr) ! t) ! j) = length (tok_rows st ! j) + t"
proof (induction t)
  case 0
  show ?case by simp
next
  case (Suc t)
  then have s: "decode_step M T stop eos ((st # tr) ! t) = Inr (tr ! t)"
    and w: "wf_state B ((st # tr) ! t)"
    using decode_trace_step [OF tr, of t] trace_wf [OF tr wf, of t] by simp_all
  from decode_step_props(4) [OF s w j] Suc show ?case by simp
qed

lemma trace_frozen:
  assumes tr: "decode_trace n M T stop eos st = Inr tr" and wf: "wf_state B st"
    and j: "j < B" and stopped: "is_stopped ((st # tr) ! t) ! j" and le: "t \<le> u"
  shows "u \<le> length tr \<Longrightarrow>
    is_stopped ((st # tr) ! u) ! j
    \<and> seq_lengths ((st # tr) ! u) ! j = seq_lengths ((st # tr) ! t) ! j"
  using le
proof (induction u rule: dec_induct)
  case base
  show ?case using stopped by simp
next
  case (step u)
  then have s: "decode_step M T stop eos ((st # tr) ! u) = Inr (tr ! u)"
    and w: "wf_state B ((st # tr) ! u)"
    using decode_trace_step [OF tr, of u] trace_wf [OF tr wf, of u] by simp_all
  from decode_step_props(5,6) [OF s w j] step show ?case by simp
qed

lemma trace_running:
  assumes tr: "decode_trace n M T stop eos st = Inr tr" and wf: "wf_state B st"
    and j: "j < B" and running: "\<not> is_stopped st ! j"
    and never: "\<forall>u<length tr. next_tokens (tr ! u) ! j \<noteq> stop \<and> next_tokens (tr ! u) ! j \<noteq> eos"
  shows "t \<le> length tr \<Longrightarrow>
    \<not> is_stopped ((st # tr) ! t) ! j
    \<and> seq_lengths ((st # tr) ! t) ! j = seq_lengths st ! j + t"
proof (induction t)
  case 0
  show ?case using running by simp
next
  case (Suc t)
  then have s: "decode_step M T stop eos ((st # tr) ! t) = Inr (tr ! t)"
    and w: "wf_state B ((st # tr) ! t)"
    using decode_trace_step [OF tr, of t] trace_wf [OF tr wf, of t] by simp_all
  from Suc never have "next_tokens (tr ! t) ! j \<noteq> stop \<and> next_tokens (tr ! t) ! j \<noteq> eos"
    by simp
  with decode_step_props(5,6) [OF s w j] Suc show ?case by simp
qed

lemma trace_token:
  assumes tr: "decode_trace n M T stop eos st = Inr tr" and wf: "wf_state B st"
    and j: "j < B" and lt: "Suc t \<le> u"
  shows "u \<le> length tr \<Longrightarrow>
    tok_rows ((st # tr) ! u) ! j ! (length (tok_rows st ! j) + t) = next_tokens (tr ! t) ! j"
  using lt
proof (induction u rule: dec_induct)
  case base
  then have t: "t < length tr" by simp
  have s: "decode_step M T stop eos ((st # tr) ! t) = Inr (tr ! t)"
    and w: "wf_state B ((st # tr) ! t)"
    using decode_trace_step [OF tr t] trace_wf [OF tr wf, of t] t by simp_all
  from decode_step_props(4) [OF s w j] trace_rows_length [OF tr wf j, of t] t
  show ?case by (simp add: nth_append)
next
  case (step u)
  then have s: "decode_step M T stop eos ((st # tr) ! u) = Inr (tr ! u)"
    and w: "wf_state B ((st # tr) ! u)"
    using decode_trace_step [OF tr, of u] trace_wf [OF tr wf, of u] by simp_all
  from decode_step_props(4) [OF s w j] trace_rows_length [OF tr wf j, of u] step
  show ?case by (simp add: nth_append)
qed

lemma wf_decode_init: "wf_state (length prefix_embed) (decode_init None prefix_embed)"
  by (simp add: wf_state_def decode_init_def tok_rows_def)


lemma tok_rows_decode_init:
  "j < length prefix_embed \<Longrightarrow> tok_rows (decode_init None prefix_embed) ! j = []"
  by (simp add: tok_rows_def decode_init_def)

text \<open>
  C3 does not hold as the specification states it of every call that \<open>generate_topk\<close>
  accepts. With a language model that always chooses token 1 (never the stop token 2 nor
  the end-of-sequence token 9), one sequence and a step cap of 3: two entries return six
  decoded tokens, \<open>tokens\<close> and \<open>seq_lengths\<close> being kept from the first entry to the second;
  and one entry with the row \<open>[5]\<close> given as \<open>tokens\<close> returns four.
\<close>

theorem generate_topk_longer_than_entry_length:
  "generate_topk (\<lambda>s. s)
      \<lparr>lm_gpt = (\<lambda>row. 1::nat), lm_wte = (\<lambda>t. t), l_div = (\<lambda>l t. l), l_softmax = (\<lambda>l. l),
       l_log = (\<lambda>l. l), l_topk1 = (\<lambda>l. Some l)\<rparr>
      None None (Some [[7::nat]]) 2 3 1 2 9 = Inr [[1, 1, 1, 1, 1, 1]]
   \<and> generate_topk (\<lambda>s. s)
      \<lparr>lm_gpt = (\<lambda>row. 1::nat), lm_wte = (\<lambda>t. t), l_div = (\<lambda>l t. l), l_softmax = (\<lambda>l. l),
       l_log = (\<lambda>l. l), l_topk1 = (\<lambda>l. Some l)\<rparr>
      (Some [[5]]) None (Some [[7::nat]]) 1 3 1 2 9 = Inr [[5, 1, 1, 1]]"
  by (simp add: generate_topk_def decode_init_def decode_step_def next_token_def
      eval_nat_numeral)

text \<open>
  C3, amended to the call the repository makes: one entry, \<open>embed\<close> given and no \<open>tokens\<close>.
  With a step cap \<open>entry_length\<close> above zero and a language model that yields a token for
  every sequence, \<open>generate_topk\<close> returns, and what it returns for sequence \<open>j\<close> is the
  decoding of \<open>take (lens ! j) (rows ! j)\<close>, where \<open>rows\<close> and \<open>lens\<close> are \<open>tokens\<close> and
  \<open>seq_lengths\<close> after the last iteration. For every sequence: the decoded slice has at
  most \<open>entry_length\<close> tokens; the tokens of its row are the tokens chosen step by step; if
  the token chosen at step \<open>t\<close> is the stop token or the end-of-sequence token, the
  recorded length is the same after every later step and at the end as after step \<open>t\<close>;
  and if no such token is ever chosen, the loop runs all \<open>entry_length\<close> steps, the decoded
  slice has \<open>entry_length\<close> tokens and the recorded length, which starts at one (line 442),
  is \<open>entry_length + 1\<close>, the slice being cut at the end of the row.
\<close>

theorem generate_topk_lengths:
  assumes pos: "0 < entry_length" and vocab: "\<forall>row. next_token M T row \<noteq> None"
  shows "\<exists>tr rows lens.
      decode_trace entry_length M T stop eos (decode_init None prefix_embed) = Inr tr
    \<and> tr \<noteq> [] \<and> length tr \<le> entry_length
    \<and> tokens (last tr) = Some rows \<and> seq_lengths (last tr) = lens
    \<and> length rows = length prefix_embed \<and> length lens = length prefix_embed
    \<and> generate_topk decode M None prompt (Some prefix_embed) 1 entry_length T stop eos
        = Inr (map2 (\<lambda>output l. decode (take l output)) rows lens)
    \<and> (\<forall>j<length prefix_embed.
         length (take (lens ! j) (rows ! j)) \<le> entry_length
       \<and> (\<forall>t<length tr. rows ! j ! t = next_tokens (tr ! t) ! j)
       \<and> (\<forall>t<length tr.
            next_tokens (tr ! t) ! j = stop \<or> next_tokens (tr ! t) ! j = eos \<longrightarrow>
              (\<forall>u. t \<le> u \<and> u < length tr \<longrightarrow>
                  seq_lengths (tr ! u) ! j = seq_lengths (tr ! t) ! j)
              \<and> lens ! j = seq_lengths (tr ! t) ! j)
       \<and> ((\<forall>t<length tr. next_tokens (tr ! t) ! j \<noteq> stop \<and> next_tokens (tr ! t) ! j \<noteq> eos) \<longrightarrow>
            length tr = entry_length \<and> length (take (lens ! j) (rows ! j)) = entry_length
            \<and> lens ! j = Suc entry_length))"
proof -
  let ?B = "length prefix_embed"
  let ?st0 = "decode_init None prefix_embed"
  note wf0 = wf_decode_init [of prefix_embed]
  from decode_trace_total [OF vocab wf0] obtain tr where
    tr: "decode_trace entry_length M T stop eos ?st0 = Inr tr" by blast
  have ne: "tr \<noteq> []" by (rule decode_trace_nonempty [OF pos tr])
  have le: "length tr \<le> entry_length" by (rule decode_trace_length [OF tr])
  have last: "last tr = (?st0 # tr) ! length tr" "last tr = tr ! (length tr - 1)"
    using ne by (simp_all add: last_conv_nth)
  have wfl: "wf_state ?B (last tr)"
    using trace_wf [OF tr wf0, of "length tr"] last by simp
  have lstep: "decode_step M T stop eos ((?st0 # tr) ! (length tr - 1)) = Inr (last tr)"
    using decode_trace_step [OF tr, of "length tr - 1"] ne last by simp
  have wfp: "wf_state ?B ((?st0 # tr) ! (length tr - 1))"
    using trace_wf [OF tr wf0, of "length tr - 1"] by simp
  from decode_step_props(2) [OF lstep wfp] obtain rows where
    rows: "tokens (last tr) = Some rows" by auto
  then have tr_rows: "tok_rows (last tr) = rows" by (simp add: tok_rows_def)
  define lens where "lens = seq_lengths (last tr)"
  have lrows: "length rows = ?B" and llens: "length lens = ?B"
    using wfl tr_rows by (simp_all add: wf_state_def lens_def)
  have init_gen: "?st0\<lparr>generated := prefix_embed\<rparr> = ?st0"
    by (simp add: decode_init_def)
  have gen: "generate_topk decode M None prompt (Some prefix_embed) 1 entry_length T stop eos
        = Inr (map2 (\<lambda>output l. decode (take l output)) rows lens)"
    using ne rows
    by (simp add: generate_topk_def One_nat_def init_gen decode_loop_trace tr lens_def
        del: decode_loop.simps decode_trace.simps)
  have per_row: "length (take (lens ! j) (rows ! j)) \<le> entry_length
       \<and> (\<forall>t<length tr. rows ! j ! t = next_tokens (tr ! t) ! j)
       \<and> (\<forall>t<length tr.
            next_tokens (tr ! t) ! j = stop \<or> next_tokens (tr ! t) ! j = eos \<longrightarrow>
              (\<forall>u. t \<le> u \<and> u < length tr \<longrightarrow>
                  seq_lengths (tr ! u) ! j = seq_lengths (tr ! t) ! j)
              \<and> lens ! j = seq_lengths (tr ! t) ! j)
       \<and> ((\<forall>t<length tr. next_tokens (tr ! t) ! j \<noteq> stop \<and> next_tokens (tr ! t) ! j \<noteq> eos) \<longrightarrow>
            length tr = entry_length \<and> length (take (lens ! j) (rows ! j)) = entry_length
            \<and> lens ! j = Suc entry_length)"
    if j: "j < ?B" for j
  proof (intro conjI allI impI)
    have rl: "length (rows ! j) = length tr"
      using trace_rows_length [OF tr wf0 j, of "length tr"] last tr_rows
      by (simp add: tok_rows_decode_init [OF j])
    show "length (take (lens ! j) (rows ! j)) \<le> entry_length"
      using rl le by simp
    show "rows ! j ! t = next_tokens (tr ! t) ! j" if "t < length tr" for t
      using trace_token [OF tr wf0 j, of t "length tr"] that last tr_rows
      by (simp add: tok_rows_decode_init [OF j])
    {
      fix t
      assume t: "t < length tr"
        and tok: "next_tokens (tr ! t) ! j = stop \<or> next_tokens (tr ! t) ! j = eos"
      have s: "decode_step M T stop eos ((?st0 # tr) ! t) = Inr (tr ! t)"
        by (rule decode_trace_step [OF tr t])
      have w: "wf_state ?B ((?st0 # tr) ! t)"
        using trace_wf [OF tr wf0, of t] t by simp
      from decode_step_props(6) [OF s w j] tok
      have stopped: "is_stopped ((?st0 # tr) ! Suc t) ! j" by simp
      show "seq_lengths (tr ! u) ! j = seq_lengths (tr ! t) ! j"
        if "t \<le> u \<and> u < length tr" for u
        using trace_frozen [OF tr wf0 j stopped, of "Suc u"] that by simp
      show "lens ! j = seq_lengths (tr ! t) ! j"
        using trace_frozen [OF tr wf0 j stopped, of "length tr"] t last
        by (simp add: lens_def)
    }
    assume never: "\<forall>t<length tr. next_tokens (tr ! t) ! j \<noteq> stop
      \<and> next_tokens (tr ! t) ! j \<noteq> eos"
    have run0: "\<not> is_stopped ?st0 ! j" using j by (simp add: decode_init_def)
    from trace_running [OF tr wf0 j run0 never, of "length tr"] last
    have run: "\<not> is_stopped (last tr) ! j" and sl: "lens ! j = seq_lengths ?st0 ! j + length tr"
      by (simp_all add: lens_def)
    show full: "length tr = entry_length"
    proof (rule ccontr)
      assume "length tr \<noteq> entry_length"
      with le have "length tr < entry_length" by simp
      from decode_trace_early [OF tr this] have "list_all (\<lambda>b. b) (is_stopped (last tr))"
        by simp
      moreover have "j < length (is_stopped (last tr))" using wfl j by (simp add: wf_state_def)
      ultimately have "is_stopped (last tr) ! j" by (simp add: list_all_length)
      with run show False by simp
    qed
    show "length (take (lens ! j) (rows ! j)) = entry_length"
      using rl sl full by simp
    show "lens ! j = Suc entry_length"
      using sl full j by (simp add: decode_init_def)
  qed
  from tr ne le rows lrows llens gen per_row show ?thesis
    unfolding lens_def by blast
qed


theorem generate_topk_lengths_witness:
  "(0::nat) < 3
   \<and> generate_topk (\<lambda>s. s)
         \<lparr>lm_gpt = (\<lambda>row. if hd row = (5::nat) \<and> 2 \<le> length row then 2 else (1::nat)),
          lm_wte = (\<lambda>t. t), l_div = (\<lambda>l t. l), l_softmax = (\<lambda>l. l), l_log = (\<lambda>l. l),
          l_topk1 = (\<lambda>l. Some l)\<rparr>
         None None (Some [[5], [7]]) 1 3 1 2 9 = Inr [[1, 2, 2], [1, 1, 1]]
   \<and> (\<exists>rows lens.
         generate_topk (\<lambda>s. s)
           \<lparr>lm_gpt = (\<lambda>row. if hd row = (5::nat) \<and> 2 \<le> length row then 2 else (1::nat)),
            lm_wte = (\<lambda>t. t), l_div = (\<lambda>l t. l), l_softmax = (\<lambda>l. l), l_log = (\<lambda>l. l),
            l_topk1 = (\<lambda>l. Some l)\<rparr>
           None None (Some [[5], [7]]) 1 3 1 2 9
         = Inr (map2 (\<lambda>output l. take l output) rows lens)
       \<and> length (take (lens ! 0) (rows ! 0)) \<le> 3
       \<and> length (take (lens ! 1) (rows ! 1)) \<le> 3)"
proof -
  let ?M = "\<lparr>lm_gpt = (\<lambda>row. if hd row = (5::nat) \<and> 2 \<le> length row then 2 else (1::nat)),
          lm_wte = (\<lambda>t. t), l_div = (\<lambda>l t. l), l_softmax = (\<lambda>l. l), l_log = (\<lambda>l. l),
          l_topk1 = (\<lambda>l. Some l)\<rparr>"
  have h1: "(0::nat) < 3" by simp
  have h2: "\<forall>row. next_token ?M 1 row \<noteq> None" by (simp add: next_token_def)
  have e: "generate_topk (\<lambda>s. s) ?M None None (Some [[5], [7]]) 1 3 1 2 9
      = Inr [[1, 2, 2], [1, 1, 1]]"
    by (simp add: generate_topk_def decode_init_def decode_step_def next_token_def
        eval_nat_numeral)
  from generate_topk_lengths [OF h1 h2, where decode = "\<lambda>s. s" and stop = 2 and eos = 9
      and prefix_embed = "[[5], [7]]" and prompt = None]
  obtain tr rows lens where
    g: "generate_topk (\<lambda>s. s) ?M None None (Some [[5], [7]]) 1 3 1 2 9
          = Inr (map2 (\<lambda>output l. take l output) rows lens)"
    and b: "\<forall>j<length [[5::nat], [7]]. length (take (lens ! j) (rows ! j)) \<le> 3"
    by blast
  from b have "length (take (lens ! 0) (rows ! 0)) \<le> 3"
    and "length (take (lens ! 1) (rows ! 1)) \<le> 3" by simp_all
  with g have "\<exists>rows lens.
         generate_topk (\<lambda>s. s) ?M None None (Some [[5], [7]]) 1 3 1 2 9
         = Inr (map2 (\<lambda>output l. take l output) rows lens)
       \<and> length (take (lens ! 0) (rows ! 0)) \<le> 3
       \<and> length (take (lens ! 1) (rows ! 1)) \<le> 3"
    by blast
  with h1 e show ?thesis by blast
qed

section \<open>The reported averages of an epoch\<close>

lemma train_epoch_averages:
  assumes "train_epoch L dl_ic dl_vqa st = Inr st'"
  shows "avg_train_loss_ic st' = avg_train_loss_ic st @ [train_loss_ic st' / real (length dl_ic)]"
    and "avg_train_loss_vqa st'
           = avg_train_loss_vqa st @ [train_loss_vqa st' / real (length dl_ic)]"
proof -
  have frame: "avg_train_loss_ic (paired_loop L a b s) = avg_train_loss_ic s
      \<and> avg_train_loss_vqa (paired_loop L a b s) = avg_train_loss_vqa s" for a b s
    by (induction L a b s rule: paired_loop.induct) (simp_all add: paired_step_def)
  from assms frame [of dl_ic dl_vqa "st\<lparr>progress_n := 0\<rparr>"]
  show "avg_train_loss_ic st' = avg_train_loss_ic st @ [train_loss_ic st' / real (length dl_ic)]"
    and "avg_train_loss_vqa st'
           = avg_train_loss_vqa st @ [train_loss_vqa st' / real (length dl_ic)]"
    by (auto simp: train_epoch_def Let_def split: if_splits)
qed

text \<open>
  C4, at a captioning loader of three batches and a question-answering loader of two, the
  loss of a batch being the sum of its entries: the question-answering losses of the epoch
  sum to 10, over two batches, and the average reported for the task is 10 / 3, the sum
  divided by the number of captioning batches, not 10 / 2.
\<close>

theorem vqa_average_divided_by_ic_batches:
  "(case train_epoch
           \<lparr>loss_ic = (\<lambda>m b. real (sum_list b)), loss_vqa = (\<lambda>m b. real (sum_list b)),
            optimizer_step = (\<lambda>m b c. m)\<rparr>
           [[1], [2], [3]] [[4], [6 :: nat]] (main_init ()) of
      Inl e \<Rightarrow> False
    | Inr st \<Rightarrow> train_loss_vqa st = 10 \<and> progress_n st = 2
        \<and> avg_train_loss_vqa st = [10 / 3]
        \<and> avg_train_loss_vqa st \<noteq> [train_loss_vqa st / real (length [[4], [6 :: nat]])])"
  by (simp add: train_epoch_def main_init_def paired_step_def Let_def)

section \<open>The paired steps of an epoch\<close>

lemma paired_loop_counts:
  "progress_n (paired_loop L t_ic t_vqa st) = progress_n st + min (length t_ic) (length t_vqa)
   \<and> counter_batch_ic (paired_loop L t_ic t_vqa st)
       = counter_batch_ic st + sum_list (map length (take (length t_vqa) t_ic))
   \<and> counter_batch_vqa (paired_loop L t_ic t_vqa st)
       = counter_batch_vqa st + sum_list (map length (take (length t_ic) t_vqa))"
  by (induction L t_ic t_vqa st rule: paired_loop.induct) (simp_all add: paired_step_def)

text \<open>
  C5. The loop of an epoch runs \<open>min\<close> of the two loaders' batch counts paired steps: the
  progress counter, zero at the start of the epoch, ends there, and the examples counted
  for each task are those of its first that many batches. This holds whether or not the
  epoch then reports its averages. Ten captioning batches and seven question-answering
  batches give seven steps.
\<close>

theorem paired_steps_min:
  "progress_n (paired_loop L dl_ic dl_vqa (st\<lparr>progress_n := 0\<rparr>))
     = min (length dl_ic) (length dl_vqa)
   \<and> counter_batch_ic (paired_loop L dl_ic dl_vqa (st\<lparr>progress_n := 0\<rparr>))
     = counter_batch_ic st
         + sum_list (map length (take (min (length dl_ic) (length dl_vqa)) dl_ic))
   \<and> counter_batch_vqa (paired_loop L dl_ic dl_vqa (st\<lparr>progress_n := 0\<rparr>))
     = counter_batch_vqa st
         + sum_list (map length (take (min (length dl_ic) (length dl_vqa)) dl_vqa))
   \<and> (case train_epoch L dl_ic dl_vqa st of
         Inl e \<Rightarrow> dl_ic = []
       | Inr st' \<Rightarrow> progress_n st' = min (length dl_ic) (length dl_vqa))
   \<and> (case train_epoch L (replicate 10 b_ic) (replicate 7 b_vqa) st of
         Inl e \<Rightarrow> False
       | Inr st' \<Rightarrow> progress_n st' = 7)"
proof -
  have t: "take (min (length dl_ic) (length dl_vqa)) dl_ic = take (length dl_vqa) dl_ic"
    "take (min (length dl_ic) (length dl_vqa)) dl_vqa = take (length dl_ic) dl_vqa"
    by (simp_all add: min_def)
  show ?thesis
    unfolding t
    by (simp add: paired_loop_counts train_epoch_def Let_def)
qed

section \<open>Heads that do not divide the channels\<close>

lemma MultiHeadAttention_init_cases:
  "MultiHeadAttention_init dim_self dim_ref n_heads =
     (if n_heads = 0 \<or> dim_self < n_heads then Inl ZeroDivisionError
      else Inr \<lparr>num_heads = n_heads,
                scale = real (dim_self div n_heads) powr (- (1 / 2)),
                to_queries = (dim_self, dim_self),
                to_keys_values = (dim_ref, dim_self * 2),
                project = (dim_self, dim_self)\<rparr>)"
  by (auto simp: MultiHeadAttention_init_def Let_def div_eq_0_iff)

lemma split_heads_iff:
  assumes "0 < b" "0 < n" "0 < h"
  shows "b * n * h * (c div h) = b * n * c \<longleftrightarrow> h dvd (c::nat)"
proof -
  have "b * n * h * (c div h) = b * n * c \<longleftrightarrow> h * (c div h) = c"
    using assms by (simp add: mult.assoc)
  also have "\<dots> \<longleftrightarrow> h dvd c"
    by (metis dvd_mult_div_cancel dvd_triv_left)
  finally show ?thesis .
qed

lemma forward_not_divisible:
  assumes a: "MultiHeadAttention_init dim_self dim_ref n_heads = Inr a"
    and nd: "\<not> n_heads dvd dim_self" and b: "0 < b" and n: "0 < n"
  shows "MultiHeadAttention_forward a [b, n, dim_self] None msk = Inl RuntimeError"
proof -
  from a have h: "0 < n_heads" and le: "n_heads \<le> dim_self"
    and a': "a = \<lparr>num_heads = n_heads,
                scale = real (dim_self div n_heads) powr (- (1 / 2)),
                to_queries = (dim_self, dim_self),
                to_keys_values = (dim_ref, dim_self * 2),
                project = (dim_self, dim_self)\<rparr>"
    by (auto simp: MultiHeadAttention_init_cases split: if_splits)
  have "b * n * n_heads * (dim_self div n_heads) \<noteq> b * n * dim_self"
    using split_heads_iff [OF b n h] nd by simp
  then have r: "reshape [b, n, dim_self] [b, n, n_heads, dim_self div n_heads] = Inl RuntimeError"
    by (simp add: reshape_def mult.assoc)
  show ?thesis
    using h r
    by (simp add: MultiHeadAttention_forward_def a' Linear_forward_def)
qed

lemma forward_divisible:
  assumes a: "MultiHeadAttention_init dim_self dim_self n_heads = Inr a"
    and d: "n_heads dvd dim_self"
  shows "MultiHeadAttention_forward a [b, n, dim_self] None None
    = Inr ([b, n, dim_self], [b, n, n, n_heads])"
proof -
  from a have h: "0 < n_heads"
    and a': "a = \<lparr>num_heads = n_heads,
                scale = real (dim_self div n_heads) powr (- (1 / 2)),
                to_queries = (dim_self, dim_self),
                to_keys_values = (dim_self, dim_self * 2),
                project = (dim_self, dim_self)\<rparr>"
    by (auto simp: MultiHeadAttention_init_cases split: if_splits)
  have e: "n_heads * (dim_self div n_heads) = dim_self" using d by simp
  have r1: "reshape [b, n, dim_self] [b, n, n_heads, dim_self div n_heads]
      = Inr [b, n, n_heads, dim_self div n_heads]"
    and r2: "reshape [b, n, dim_self * 2] [b, n, 2, n_heads, dim_self div n_heads]
      = Inr [b, n, 2, n_heads, dim_self div n_heads]"
    and r3: "reshape [b, n, n_heads, dim_self div n_heads] [b, n, dim_self] = Inr [b, n, dim_self]"
    using e by (simp_all add: reshape_def)
  show ?thesis
    using h by (simp add: MultiHeadAttention_forward_def a' Linear_forward_def r1 r2 r3
        einsum_out_shape_def einsum_dim_def)
qed


text \<open>
  C7 does not hold as the specification states it: an attention block of 10 channels and 8 heads is
  constructed without an error, and its \<open>forward\<close> on an input of one position raises at
  the reshape into heads.
\<close>

theorem attention_init_accepts_indivisible:
  "MultiHeadAttention_init 10 10 8
     = Inr \<lparr>num_heads = 8, scale = 1, to_queries = (10, 10), to_keys_values = (10, 20),
            project = (10, 10)\<rparr>
   \<and> MultiHeadAttention_forward
       \<lparr>num_heads = 8, scale = 1, to_queries = (10, 10), to_keys_values = (10, 20),
        project = (10, 10)\<rparr> [1, 1, 10] None None = Inl RuntimeError"
  by (simp add: MultiHeadAttention_init_def MultiHeadAttention_forward_def Linear_forward_def
      reshape_def)

text \<open>
  C7, amended. The constructor raises exactly when \<open>num_heads\<close> is zero or greater than
  \<open>dim_self\<close> (\<open>ZeroDivisionError\<close>, from the division or from the power of a zero head
  size), so a \<open>dim_self\<close> that \<open>num_heads\<close> does not divide is accepted whenever it is at
  least \<open>num_heads\<close>. On a block so constructed, \<open>forward\<close> on a non-empty input of
  \<open>dim_self\<close> channels raises \<open>RuntimeError\<close> if \<open>num_heads\<close> does not divide \<open>dim_self\<close>; if
  it does, self-attention returns an output of the input's shape and scores of shape
  \<open>(b, n, n, num_heads)\<close>.
\<close>

theorem attention_head_mismatch:
  "MultiHeadAttention_init dim_self dim_ref n_heads =
     (if n_heads = 0 \<or> dim_self < n_heads then Inl ZeroDivisionError
      else Inr \<lparr>num_heads = n_heads,
                scale = real (dim_self div n_heads) powr (- (1 / 2)),
                to_queries = (dim_self, dim_self),
                to_keys_values = (dim_ref, dim_self * 2),
                project = (dim_self, dim_self)\<rparr>)
   \<and> (\<forall>a. MultiHeadAttention_init dim_self dim_ref n_heads = Inr a \<longrightarrow>
          \<not> n_heads dvd dim_self \<longrightarrow> 0 < b \<longrightarrow> 0 < n \<longrightarrow>
          MultiHeadAttention_forward a [b, n, dim_self] None msk = Inl RuntimeError)
   \<and> (\<forall>a. MultiHeadAttention_init dim_self dim_self n_heads = Inr a \<longrightarrow>
          n_heads dvd dim_self \<longrightarrow>
          MultiHeadAttention_forward a [b, n, dim_self] None None
            = Inr ([b, n, dim_self], [b, n, n, n_heads]))"
  using MultiHeadAttention_init_cases forward_not_divisible forward_divisible
  by blast

theorem attention_head_mismatch_witness:
  "MultiHeadAttention_init 10 10 8
     = Inr \<lparr>num_heads = 8, scale = 1, to_queries = (10, 10), to_keys_values = (10, 20),
            project = (10, 10)\<rparr>
   \<and> \<not> (8::nat) dvd 10 \<and> (0::nat) < 3 \<and> (0::nat) < 5
   \<and> MultiHeadAttention_forward
       \<lparr>num_heads = 8, scale = 1, to_queries = (10, 10), to_keys_values = (10, 20),
        project = (10, 10)\<rparr> [3, 5, 10] None None = Inl RuntimeError
   \<and> MultiHeadAttention_init 16 16 8
     = Inr \<lparr>num_heads = 8, scale = 2 powr (- (1 / 2)), to_queries = (16, 16),
            to_keys_values = (16, 32), project = (16, 16)\<rparr>
   \<and> (8::nat) dvd 16
   \<and> MultiHeadAttention_forward
       \<lparr>num_heads = 8, scale = 2 powr (- (1 / 2)), to_queries = (16, 16),
        to_keys_values = (16, 32), project = (16, 16)\<rparr> [3, 5, 16] None None
     = Inr ([3, 5, 16], [3, 5, 5, 8])"
proof -
  have i: "MultiHeadAttention_init 10 10 8
     = Inr \<lparr>num_heads = 8, scale = 1, to_queries = (10, 10), to_keys_values = (10, 20),
            project = (10, 10)\<rparr>"
    by (simp add: MultiHeadAttention_init_def)
  have j: "MultiHeadAttention_init 16 16 8
     = Inr \<lparr>num_heads = 8, scale = 2 powr (- (1 / 2)), to_queries = (16, 16),
            to_keys_values = (16, 32), project = (16, 16)\<rparr>"
    by (simp add: MultiHeadAttention_init_def)
  have nd: "\<not> (8::nat) dvd 10" and d: "(8::nat) dvd 16" and b: "(0::nat) < 3" and n: "(0::nat) < 5"
    by simp_all
  from attention_head_mismatch [of 10 10 8 3 5 None] i nd b n
  have f: "MultiHeadAttention_forward
       \<lparr>num_heads = 8, scale = 1, to_queries = (10, 10), to_keys_values = (10, 20),
        project = (10, 10)\<rparr> [3, 5, 10] None None = Inl RuntimeError"
    by blast
  from attention_head_mismatch [of 16 16 8 3 5 None] j d
  have g: "MultiHeadAttention_forward
       \<lparr>num_heads = 8, scale = 2 powr (- (1 / 2)), to_queries = (16, 16),
        to_keys_values = (16, 32), project = (16, 16)\<rparr> [3, 5, 16] None None
     = Inr ([3, 5, 16], [3, 5, 5, 8])"
    by blast
  from i j nd d b n f g show ?thesis by blast
qed

section \<open>The mask length and the sequence cap of a captioning dataset\<close>







section \<open>The shape of the prefix mapper's output\<close>

lemma TransformerLayer_forward_shape:
  "TransformerLayer_forward l x y msk = Inr s \<Longrightarrow> s = x"
  by (auto simp: TransformerLayer_forward_def residual_add_def
      split: sum.splits prod.splits if_splits)

lemma Transformer_forward_from_shape:
  "Transformer_forward_from enc i ls x y msk = Inr s \<Longrightarrow> s = x"
proof (induction ls arbitrary: i x)
  case Nil
  then show ?case by simp
next
  case (Cons l ls)
  then show ?case
    by (auto split: sum.splits if_splits dest!: TransformerLayer_forward_shape)
qed

lemma TransformerLayer_forward_ok:
  assumes l: "TransformerLayer_init c c h r = Inr l" and d: "h dvd c"
  shows "TransformerLayer_forward l [b, n, c] None None = Inr [b, n, c]"
proof -
  from l obtain a where a: "MultiHeadAttention_init c c h = Inr a"
    and l': "l = \<lparr>norm1 = c, attn = a, norm2 = c,
                  mlp = ((c, nat (py_int (real c * r))), (nat (py_int (real c * r)), c))\<rparr>"
    by (auto simp: TransformerLayer_init_def Let_def split: sum.splits if_splits)
  show ?thesis
    by (simp add: TransformerLayer_forward_def l' LayerNorm_forward_def
        forward_divisible [OF a d] residual_add_def MlpTransformer_forward_def Linear_forward_def)
qed

lemma Transformer_init_layers_members:
  "Transformer_init_layers is c c h r False = Inr ls \<Longrightarrow> l \<in> set ls
     \<Longrightarrow> TransformerLayer_init c c h r = Inr l"
  by (induction "is" arbitrary: ls) (auto split: sum.splits)

lemma Transformer_init_layers_ok:
  "MultiHeadAttention_init c c h = Inr a \<Longrightarrow> \<exists>ls. Transformer_init_layers is c c h 2 False = Inr ls"
  by (induction "is") (auto simp: TransformerLayer_init_def Let_def py_int_def split: sum.splits)

lemma Transformer_forward_from_ok:
  assumes "\<And>l. l \<in> set ls \<Longrightarrow> TransformerLayer_init c c h r = Inr l" and "h dvd c"
  shows "Transformer_forward_from False i ls [b, n, c] None None = Inr [b, n, c]"
  using assms
proof (induction ls arbitrary: i)
  case Nil
  show ?case by simp
next
  case (Cons l ls)
  have "TransformerLayer_init c c h r = Inr l" by (simp add: Cons.prems)
  then have "TransformerLayer_forward l [b, n, c] None None = Inr [b, n, c]"
    using Cons.prems(2) by (rule TransformerLayer_forward_ok)
  moreover have "Transformer_forward_from False (Suc i) ls [b, n, c] None None = Inr [b, n, c]"
    by (rule Cons.IH) (simp_all add: Cons.prems)
  ultimately show ?case by simp
qed

lemma TransformerMapper_forward_shape:
  assumes i: "TransformerMapper_init dim_clip emb pl cl num_layers = Inr tm"
    and f: "TransformerMapper_forward tm x = Inr s"
  shows "\<exists>b rest. x = b # rest \<and> s = [b, pl, emb]"
proof -
  from i obtain t where tm: "tm = \<lparr>clip_length = cl, transformer = t,
      linear = (dim_clip, cl * emb), prefix_const = [pl, emb]\<rparr>"
    by (auto simp: TransformerMapper_init_def split: sum.splits)
  from f obtain l where l: "Linear_forward (dim_clip, cl * emb) x = Inr l"
    by (auto simp: TransformerMapper_forward_def tm split: sum.splits)
  from f l obtain b rest where x: "x = b # rest"
    by (cases x) (auto simp: TransformerMapper_forward_def tm)
  from f x l obtain x' where v: "view_last_inferred l [b, cl] = Inr x'"
    by (auto simp: TransformerMapper_forward_def tm split: sum.splits)
  from f x l v obtain p where c: "cat_dim1 x' [b, pl, emb] = Inr p"
    by (auto simp: TransformerMapper_forward_def tm split: sum.splits)
  from f x l v c obtain out where t: "Transformer_forward t p None None = Inr out"
    by (auto simp: TransformerMapper_forward_def tm split: sum.splits)
  from v obtain k where x': "x' = [b, cl, k]"
    by (auto simp: view_last_inferred_def split: if_splits)
  from c x' have p: "p = [b, cl + pl, emb]"
    by (auto simp: cat_dim1_def split: if_splits)
  from t have "out = p"
    by (auto simp: Transformer_forward_def dest: Transformer_forward_from_shape)
  with f x l v c t p have "s = [b, pl, emb]"
    by (simp add: TransformerMapper_forward_def tm)
  with x show ?thesis by blast
qed

lemma TransformerMapper_forward_ok:
  assumes b: "0 < b" and cl: "0 < cl" and d: "8 dvd emb" and e: "0 < emb"
  shows "\<exists>tm. TransformerMapper_init dim_clip emb pl cl num_layers = Inr tm
    \<and> TransformerMapper_forward tm [b, dim_clip] = Inr [b, pl, emb]"
proof -
  from d e have "8 \<le> emb" by (auto elim!: dvdE)
  then obtain a where a: "MultiHeadAttention_init emb emb 8 = Inr a"
    by (simp add: MultiHeadAttention_init_cases)
  from Transformer_init_layers_ok [OF a] obtain ls where
    ls: "Transformer_init_layers [0..<num_layers] emb emb 8 2 False = Inr ls" by blast
  let ?tm = "\<lparr>clip_length = cl, transformer = \<lparr>enc_dec = False, layers = ls\<rparr>,
      linear = (dim_clip, cl * emb), prefix_const = [pl, emb]\<rparr>"
  have i: "TransformerMapper_init dim_clip emb pl cl num_layers = Inr ?tm"
    by (simp add: TransformerMapper_init_def Transformer_init_def ls)
  have v: "view_last_inferred [b, cl * emb] [b, cl] = Inr [b, cl, emb]"
    using b cl by (simp add: view_last_inferred_def)
  have t: "Transformer_forward \<lparr>enc_dec = False, layers = ls\<rparr> [b, cl + pl, emb] None None
      = Inr [b, cl + pl, emb]"
    unfolding Transformer_forward_def
    using Transformer_forward_from_ok [of ls emb 8 2 0 b "cl + pl"]
      Transformer_init_layers_members [OF ls] d by simp
  have "TransformerMapper_forward ?tm [b, dim_clip] = Inr [b, pl, emb]"
    by (simp add: TransformerMapper_forward_def Linear_forward_def v cat_dim1_def t)
  with i show ?thesis by blast
qed

text \<open>
  C6 does not hold as the specification states it for the MLP variant: with a prefix length of 10 and an
  embedding width of 768, the MLP mapper of \<open>ClipCaptionModel\<close> maps a batch of one
  512-vector to a tensor of shape \<open>(1, 7680)\<close>, not \<open>(1, 10, 768)\<close>.
\<close>

theorem mlp_mapper_output_is_flat:
  "ClipCaptionModel_clip_project 10 10 512 8 MLP 768 = Inr (MLP_mapper [512, 3840, 7680])
   \<and> clip_project_forward (MLP_mapper [512, 3840, 7680]) [1, 512] = Inr [1, 7680]
   \<and> clip_project_forward (MLP_mapper [512, 3840, 7680]) [1, 512] \<noteq> Inr [1, 10, 768]"
  by (simp add: ClipCaptionModel_clip_project_def clip_project_forward_def Linear_forward_def)

text \<open>
  C6, amended. For a non-empty batch, positive \<open>prefix_length\<close>, \<open>clip_length\<close> and embedding
  width, and an embedding width that the eight heads divide: the Transformer mapper is
  constructed and its output has the shape \<open>(batch, prefix_length, embedding_dim)\<close>, whatever
  \<open>clip_length\<close> and the number of layers are; the MLP mapper's output has the shape
  \<open>(batch, embedding_dim * prefix_length)\<close>; and for both, the \<open>prefix_projections\<close> of
  \<open>ClipCaptionModel.forward\<close>, the mapper's output after \<open>view\<close>, has the shape
  \<open>(batch, prefix_length, embedding_dim)\<close>.
\<close>

theorem prefix_mapper_output_shape:
  assumes "0 < b" and "0 < pl" and "0 < cl" and "0 < emb" and "8 dvd emb"
  shows "(\<exists>tm. ClipCaptionModel_clip_project pl cl prefix_size num_layers Transformer emb
                 = Inr (Transformer_mapper tm)
            \<and> clip_project_forward (Transformer_mapper tm) [b, prefix_size] = Inr [b, pl, emb]
            \<and> prefix_projections (Transformer_mapper tm) pl emb [b, prefix_size]
                 = Inr [b, pl, emb])
    \<and> ClipCaptionModel_clip_project pl cl prefix_size num_layers MLP emb
         = Inr (MLP_mapper [prefix_size, (emb * pl) div 2, emb * pl])
    \<and> clip_project_forward (MLP_mapper [prefix_size, (emb * pl) div 2, emb * pl]) [b, prefix_size]
         = Inr [b, emb * pl]
    \<and> prefix_projections (MLP_mapper [prefix_size, (emb * pl) div 2, emb * pl]) pl emb
           [b, prefix_size]
         = Inr [b, pl, emb]"
proof -
  from TransformerMapper_forward_ok [OF assms(1,3,5,4)] obtain tm where
    i: "TransformerMapper_init prefix_size emb pl cl num_layers = Inr tm"
    and f: "TransformerMapper_forward tm [b, prefix_size] = Inr [b, pl, emb]"
    by blast
  have v3: "view_first_inferred [b, pl, emb] [pl, emb] = Inr [b, pl, emb]"
    using assms by (simp add: view_first_inferred_def)
  have v2: "view_first_inferred [b, emb * pl] [pl, emb] = Inr [b, pl, emb]"
    using assms by (simp add: view_first_inferred_def mult.commute)
  have t: "ClipCaptionModel_clip_project pl cl prefix_size num_layers Transformer emb
                 = Inr (Transformer_mapper tm)
            \<and> clip_project_forward (Transformer_mapper tm) [b, prefix_size] = Inr [b, pl, emb]
            \<and> prefix_projections (Transformer_mapper tm) pl emb [b, prefix_size]
                 = Inr [b, pl, emb]"
    by (simp add: ClipCaptionModel_clip_project_def i clip_project_forward_def f
        prefix_projections_def v3)
  have m: "ClipCaptionModel_clip_project pl cl prefix_size num_layers MLP emb
         = Inr (MLP_mapper [prefix_size, (emb * pl) div 2, emb * pl])"
    "clip_project_forward (MLP_mapper [prefix_size, (emb * pl) div 2, emb * pl]) [b, prefix_size]
         = Inr [b, emb * pl]"
    "prefix_projections (MLP_mapper [prefix_size, (emb * pl) div 2, emb * pl]) pl emb
           [b, prefix_size]
         = Inr [b, pl, emb]"
    by (simp_all add: ClipCaptionModel_clip_project_def clip_project_forward_def
        prefix_projections_def Linear_forward_def v2)
  from t m show ?thesis by blast
qed

theorem prefix_mapper_output_shape_witness:
  "(0::nat) < 2 \<and> (0::nat) < 10 \<and> (0::nat) < 4 \<and> (0::nat) < 768 \<and> (8::nat) dvd 768
   \<and> (\<exists>tm. ClipCaptionModel_clip_project 10 4 512 8 Transformer 768 = Inr (Transformer_mapper tm)
          \<and> clip_project_forward (Transformer_mapper tm) [2, 512] = Inr [2, 10, 768])
   \<and> clip_project_forward (MLP_mapper [512, 3840, 7680]) [2, 512] = Inr [2, 7680]
   \<and> prefix_projections (MLP_mapper [512, 3840, 7680]) 10 768 [2, 512] = Inr [2, 10, 768]"
proof -
  have h: "(0::nat) < 2" "(0::nat) < 10" "(0::nat) < 4" "(0::nat) < 768" "(8::nat) dvd 768"
    by simp_all
  from prefix_mapper_output_shape [OF h, of 512 8] h show ?thesis
    by simp blast
qed

section \<open>Prefix-only fine-tuning\<close>

lemma named_parameters_nn_train: "named_parameters (nn_train mode m) = named_parameters m"
proof (induction m)
  case (Module t ps cs)
  then have "map (\<lambda>c. named_parameters (nn_train mode c)) cs = map named_parameters cs"
    by (intro map_cong) simp_all
  then show ?case
    by (simp only: nn_train.simps named_parameters.simps map_map comp_def)
qed

lemma all_training_nn_train: "all_training mode (nn_train mode m)"
  by (induction m) (simp add: list_all_iff)

text \<open>
  C9. The \<open>parameters\<close> of \<open>ClipCaptionPrefix\<close> are the parameters of \<open>clip_project\<close>, none of
  them a parameter of the language model where the two modules share no parameter
  object, while the inherited \<open>parameters\<close> of \<open>ClipCaptionModel\<close> hold the language model's
  parameters too. After \<open>train(mode)\<close>, for either \<open>mode\<close>, every module of \<open>gpt\<close> is in
  evaluation mode, the model itself and every module of \<open>clip_project\<close> are in mode \<open>mode\<close>,
  and \<open>gpt\<close> and \<open>clip_project\<close> have the parameters they had.
\<close>

theorem prefix_only_parameters_and_mode:
  "ClipCaptionPrefix_parameters self = nn_parameters (clip_project self)
   \<and> (set (nn_parameters (clip_project self)) \<inter> set (nn_parameters (gpt self)) = {} \<longrightarrow>
        set (ClipCaptionPrefix_parameters self) \<inter> set (nn_parameters (gpt self)) = {})
   \<and> set (ClipCaptionModel_parameters self)
        = set (nn_parameters (gpt self)) \<union> set (nn_parameters (clip_project self))
   \<and> all_training False (gpt (ClipCaptionPrefix_train mode self))
   \<and> training (ClipCaptionPrefix_train mode self) = mode
   \<and> all_training mode (clip_project (ClipCaptionPrefix_train mode self))
   \<and> nn_parameters (gpt (ClipCaptionPrefix_train mode self)) = nn_parameters (gpt self)
   \<and> nn_parameters (clip_project (ClipCaptionPrefix_train mode self))
        = nn_parameters (clip_project self)
   \<and> ClipCaptionPrefix_parameters (ClipCaptionPrefix_train mode self)
        = ClipCaptionPrefix_parameters self"
  by (simp add: ClipCaptionPrefix_parameters_def ClipCaptionPrefix_train_def
      ClipCaptionModel_train_def ClipCaptionModel_parameters_def nn_parameters_def nn_eval_def
      Let_def named_parameters_nn_train all_training_nn_train Un_commute)

theorem prefix_only_parameters_and_mode_witness:
  "set (nn_parameters (Module True [] [Module True [10, 11] [], Module True [12] []]))
     \<inter> set (nn_parameters (Module True [1] [Module True [2, 3] []])) = {}
   \<and> ClipCaptionPrefix_parameters
       \<lparr>training = False, gpt = Module True [1] [Module True [2, 3] []],
        clip_project = Module True [] [Module True [10, 11] [], Module True [12] []]\<rparr>
     = [10, 11, 12]
   \<and> set [10, 11, 12] \<inter> set (nn_parameters (Module True [1] [Module True [2, 3] []])) = {}
   \<and> ClipCaptionPrefix_train True
       \<lparr>training = False, gpt = Module True [1] [Module True [2, 3] []],
        clip_project = Module False [] [Module True [10, 11] [], Module False [12] []]\<rparr>
     = \<lparr>training = True, gpt = Module False [1] [Module False [2, 3] []],
        clip_project = Module True [] [Module True [10, 11] [], Module True [12] []]\<rparr>"
proof -
  let ?gpt = "Module True [1] [Module True [2, 3] []]"
  let ?cp = "Module True [] [Module True [10, 11] [], Module True [12] []]"
  let ?self = "\<lparr>training = False, gpt = ?gpt, clip_project = ?cp\<rparr>"
  have d: "set (nn_parameters ?cp) \<inter> set (nn_parameters ?gpt) = {}"
    by (simp add: nn_parameters_def)
  have p: "nn_parameters ?cp = [10, 11, 12]"
    by (simp add: nn_parameters_def)
  from prefix_only_parameters_and_mode [of ?self True] d
  have e: "ClipCaptionPrefix_parameters ?self = nn_parameters ?cp"
    and i: "set (ClipCaptionPrefix_parameters ?self) \<inter> set (nn_parameters ?gpt) = {}"
    by simp_all
  have t: "ClipCaptionPrefix_train True
       \<lparr>training = False, gpt = Module True [1] [Module True [2, 3] []],
        clip_project = Module False [] [Module True [10, 11] [], Module False [12] []]\<rparr>
     = \<lparr>training = True, gpt = Module False [1] [Module False [2, 3] []],
        clip_project = Module True [] [Module True [10, 11] [], Module True [12] []]\<rparr>"
    by (simp add: ClipCaptionPrefix_train_def ClipCaptionModel_train_def nn_eval_def Let_def)
  from d e i p t show ?thesis by simp
qed

end
